theory Spec2Isabelle
  imports Complex_Main "HOL-Library.Sublist"
begin

section \<open>JavaScript values used by the application\<close>

text \<open>
  The quiz application is TypeScript on a JavaScript runtime. Strings are modelled as
  \<^typ>\<open>string\<close>; an optional or nullable field is an \<^typ>\<open>'a option\<close> with \<open>None\<close> for
  \<open>undefined\<close> and \<open>null\<close>. A thrown value is either an \<open>Error\<close> object, of which only the
  message is observed, or some other value. A computation that may throw, and a promise
  that may reject, is a value of \<open>thrown + 'a\<close> with \<open>Inl\<close> for the thrown value.
\<close>

datatype thrown = Error string | NonError

text \<open>\<open>try { body } catch (e) { handler e }\<close>\<close>

definition try_catch :: "thrown + 'a \<Rightarrow> (thrown \<Rightarrow> thrown + 'a) \<Rightarrow> thrown + 'a" where
  "try_catch body handler = (case body of Inl e \<Rightarrow> handler e | Inr v \<Rightarrow> Inr v)"

text \<open>\<open>error instanceof Error ? error.message : 'Unknown error occurred'\<close>\<close>

definition error_message :: "thrown \<Rightarrow> string" where
  "error_message e = (case e of Error m \<Rightarrow> m | NonError \<Rightarrow> ''Unknown error occurred'')"

text \<open>
  Truthiness of an optional string, and \<open>x || d\<close> on optional strings and numbers. A
  number is an integer here, falsy when it is 0.
\<close>

definition truthy :: "string option \<Rightarrow> bool" where
  "truthy x = (case x of None \<Rightarrow> False | Some s \<Rightarrow> s \<noteq> [])"

definition or_string :: "string option \<Rightarrow> string \<Rightarrow> string" where
  "or_string x d = (case x of None \<Rightarrow> d | Some s \<Rightarrow> if s = [] then d else s)"

definition or_number :: "int option \<Rightarrow> int \<Rightarrow> int" where
  "or_number x d = (case x of None \<Rightarrow> d | Some n \<Rightarrow> if n = 0 then d else n)"

text \<open>\<open>String.prototype.includes\<close>: the argument occurs as a contiguous substring.\<close>

fun str_includes :: "string \<Rightarrow> string \<Rightarrow> bool" where
  "str_includes [] searchString = (searchString = [])"
| "str_includes (c # cs) searchString =
     (prefix searchString (c # cs) \<or> str_includes cs searchString)"

text \<open>
  \<open>String.prototype.toLowerCase\<close> on the ASCII letters. The two strings it is applied to,
  the path and the host name of a parsed URL, are ASCII in their serialised form.
\<close>

definition toLowerCase_char :: "char \<Rightarrow> char" where
  "toLowerCase_char c =
     (case map_of (zip ''ABCDEFGHIJKLMNOPQRSTUVWXYZ'' ''abcdefghijklmnopqrstuvwxyz'') c of
        Some l \<Rightarrow> l
      | None \<Rightarrow> c)"

definition toLowerCase :: "string \<Rightarrow> string" where
  "toLowerCase s = map toLowerCase_char s"

text \<open>\<open>Number.prototype.toString\<close> on a natural number, as used in template strings.\<close>

fun toString :: "nat \<Rightarrow> string" where
  "toString n =
     (if n < 10 then [''0123456789'' ! n]
      else toString (n div 10) @ [''0123456789'' ! (n mod 10)])"

declare toString.simps [simp del]


section \<open>Image URL validator\<close>

text \<open>
  The object built by \<open>new URL(url)\<close>, with the four properties the validator reads.
  \<open>searchParams\<close> is the decoded list of name-value pairs of the query string.
\<close>

record url =
  protocol :: string
  hostname :: string
  pathname :: string
  searchParams :: "(string \<times> string) list"

definition imageExtensions :: "string list" where
  "imageExtensions = [''.jpg'', ''.jpeg'', ''.png'', ''.gif'', ''.webp'', ''.svg'', ''.bmp'', ''.avif'']"

definition imageHosts :: "string list" where
  "imageHosts =
     [''images.pexels.com'', ''images.unsplash.com'', ''cdn.pixabay.com'', ''i.imgur.com'',
      ''upload.wikimedia.org'', ''raw.githubusercontent.com'']"

text \<open>
  \<open>isValidImageUrl\<close> of the question service. The URL constructor belongs to the platform,
  not to the repository, so it is the parameter \<open>URL\<close>: \<open>None\<close> when the constructor (or a
  property read on its result) throws, which the function's \<open>catch\<close> turns into \<open>false\<close>.
\<close>

definition isValidImageUrl :: "(string \<Rightarrow> url option) \<Rightarrow> string \<Rightarrow> bool" where
  "isValidImageUrl URL url =
     (if url = [] then False
      else case URL url of
        None \<Rightarrow> False
      | Some urlObj \<Rightarrow>
          if protocol urlObj \<notin> set [''http:'', ''https:''] then False
          else
            let pathname' = toLowerCase (pathname urlObj);
                hostname' = toLowerCase (hostname urlObj)
            in list_ex (\<lambda>ext. str_includes pathname' ext) imageExtensions \<or>
               list_ex (\<lambda>host. str_includes hostname' host) imageHosts \<or>
               str_includes pathname' ''/images/'' \<or>
               ''w'' \<in> set (map fst (searchParams urlObj)) \<or>
               ''width'' \<in> set (map fst (searchParams urlObj)))"

text \<open>
  The network, as \<open>fetch\<close> shows it to \<open>validateImageUrl\<close>: a request either resolves to a
  response, of which \<open>ok\<close>, \<open>status\<close> and the header lookup are read, or rejects.
\<close>

record RequestInit =
  req_method :: string
  req_headers :: "(string \<times> string) list"

record Response =
  ok :: bool
  status :: nat
  headers_get :: "string \<Rightarrow> string option"

definition validateImageUrl ::
  "(string \<Rightarrow> url option) \<Rightarrow> (string \<Rightarrow> RequestInit \<Rightarrow> thrown + Response) \<Rightarrow> string \<Rightarrow> thrown + bool"
where
  "validateImageUrl URL fetch url =
     (if \<not> isValidImageUrl URL url then Inr False
      else
        case fetch url \<lparr>req_method = ''HEAD'', req_headers = [(''Accept'', ''image/*'')]\<rparr> of
          Inr response \<Rightarrow>
            (let contentType = headers_get response ''content-type''
             in Inr (ok response \<and>
                  ((case contentType of Some ct \<Rightarrow> prefix ''image/'' ct | None \<Rightarrow> False) \<or>
                   status response = 200)))
        | Inl _ \<Rightarrow>
            (case fetch url
                    \<lparr>req_method = ''GET'',
                     req_headers = [(''Range'', ''bytes=0-1023''), (''Accept'', ''image/*'')]\<rparr> of
               Inr response \<Rightarrow> Inr (ok response)
             | Inl _ \<Rightarrow> Inr True))"

text \<open>
  A small URL parser, used only to instantiate the parameter \<open>URL\<close> where
  \<open>isValidImageUrl\<close> is evaluated at a concrete string. It reads strings of the form
  \<open>scheme://host[:port][/path][?query][#fragment]\<close>: the protocol is the scheme in lower
  case with its colon, the host name is in lower case, an empty path is \<open>/\<close>, and the
  query is split at \<open>&\<close> and \<open>=\<close>. On the strings evaluated below (ASCII, without user
  information, escapes or dot segments) these are the values the URL Standard gives. A
  string without a colon has no scheme and does not parse.
\<close>

fun split_on :: "char \<Rightarrow> string \<Rightarrow> string list" where
  "split_on sep [] = [[]]"
| "split_on sep (c # cs) =
     (if c = sep then [] # split_on sep cs
      else case split_on sep cs of
        [] \<Rightarrow> [[c]]
      | w # ws \<Rightarrow> (c # w) # ws)"

definition scheme_char :: "char \<Rightarrow> bool" where
  "scheme_char c = (toLowerCase_char c \<in> set ''abcdefghijklmnopqrstuvwxyz0123456789+-.'')"

definition parse_query :: "string \<Rightarrow> (string \<times> string) list" where
  "parse_query q =
     map (\<lambda>kv. (takeWhile (\<lambda>c. c \<noteq> CHR ''='') kv, drop 1 (dropWhile (\<lambda>c. c \<noteq> CHR ''='') kv)))
       (filter (\<lambda>kv. kv \<noteq> []) (split_on CHR ''&'' q))"

definition parse_URL :: "string \<Rightarrow> url option" where
  "parse_URL s =
     (let scheme = takeWhile (\<lambda>c. c \<noteq> CHR '':'') s;
          rest = dropWhile (\<lambda>c. c \<noteq> CHR '':'') s
      in if rest = [] \<or> scheme = [] \<or> \<not> list_all scheme_char scheme \<or> \<not> prefix ''://'' rest
         then None
         else
           let after = drop 3 rest;
               authority = takeWhile (\<lambda>c. c \<notin> set ''/?#'') after;
               tail = dropWhile (\<lambda>c. c \<notin> set ''/?#'') after;
               path = takeWhile (\<lambda>c. c \<notin> set ''?#'') tail;
               query = takeWhile (\<lambda>c. c \<noteq> CHR ''#'') (drop 1 (dropWhile (\<lambda>c. c \<notin> set ''?#'') tail))
           in if authority = [] \<or> CHR '' '' \<in> set authority then None
              else Some \<lparr>protocol = toLowerCase scheme @ '':'',
                         hostname = toLowerCase (takeWhile (\<lambda>c. c \<noteq> CHR '':'') authority),
                         pathname = (if path = [] then ''/'' else path),
                         searchParams =
                           (if prefix ''?'' (dropWhile (\<lambda>c. c \<notin> set ''?#'') tail)
                            then parse_query query else [])\<rparr>)"

text \<open>
  The validity predicate in the words of the specification, for comparison with
  \<open>isValidImageUrl\<close>: the string parses, its protocol is http or https, and the path ends in
  one of the extensions, or the host name is one of the listed hosts, or the path contains
  \<open>/images/\<close>, or the query has a parameter \<open>w\<close> or \<open>width\<close>.
\<close>

definition isValidImageUrl_spec :: "(string \<Rightarrow> url option) \<Rightarrow> string \<Rightarrow> bool" where
  "isValidImageUrl_spec URL url =
     (case URL url of
        None \<Rightarrow> False
      | Some urlObj \<Rightarrow>
          protocol urlObj \<in> set [''http:'', ''https:''] \<and>
          (list_ex (\<lambda>ext. suffix ext (pathname urlObj)) imageExtensions \<or>
           hostname urlObj \<in> set imageHosts \<or>
           str_includes (pathname urlObj) ''/images/'' \<or>
           ''w'' \<in> set (map fst (searchParams urlObj)) \<or>
           ''width'' \<in> set (map fst (searchParams urlObj))))"


section \<open>Data-access layer\<close>

text \<open>
  The hosted store is outside the repository. Each query the layer issues is a parameter
  of the operation that issues it: a function from the request to what awaiting the query
  gives, a rejection (\<open>Inl\<close>) or the pair \<open>(data, error)\<close> of the client's reply, with
  the message of the error object when it is not \<open>null\<close>. The row types of the replies
  are left open where the layer only passes them on.
\<close>

type_synonym 'd response = "'d \<times> string option"

text \<open>The result envelope. A key that the returned object does not have is \<open>None\<close>.\<close>

record 'd envelope =
  success :: bool
  data :: 'd
  message :: "string option"
  error :: "string option"

text \<open>
  \<open>ImageData\<close> of the image service. \<open>question_id\<close> and \<open>image_url\<close> are options so that a
  missing value can be told from an empty one.
\<close>

record ImageData =
  question_id :: "string option"
  image_url :: "string option"
  image_alt :: "string option"
  image_type :: "string option"
  display_order :: "int option"

text \<open>
  \<open>insertImage\<close>. The first component of the result lists the rows handed to the store's
  insert, in order; the second is what the returned promise settles to.
\<close>

definition insertImage ::
  "(ImageData \<Rightarrow> thrown + ('row option) response) \<Rightarrow> ImageData \<Rightarrow>
     ImageData list \<times> (thrown + ('row option) envelope)"
where
  "insertImage insert_image imageData =
     (let attempt =
        (if \<not> truthy (question_id imageData) \<or> \<not> truthy (image_url imageData)
         then ([], Inl (Error ''question_id and image_url are required fields''))
         else
           let dataToInsert =
                 \<lparr>question_id = question_id imageData,
                  image_url = image_url imageData,
                  image_alt = Some (or_string (image_alt imageData) []),
                  image_type = Some (or_string (image_type imageData) ''general''),
                  display_order = Some (or_number (display_order imageData) 1)\<rparr>
           in case insert_image dataToInsert of
                Inl e \<Rightarrow> ([dataToInsert], Inl e)
              | Inr (d, err) \<Rightarrow>
                  (case err of
                     Some m \<Rightarrow> ([dataToInsert], Inl (Error (''Failed to insert image: '' @ m)))
                   | None \<Rightarrow>
                       ([dataToInsert],
                        Inr \<lparr>success = True, data = d,
                             message = Some ''Image inserted successfully'', error = None\<rparr>)))
      in (fst attempt,
          try_catch (snd attempt)
            (\<lambda>e. Inr \<lparr>success = False, data = None, message = None,
                        error = Some (error_message e)\<rparr>)))"

text \<open>\<open>getImagesByQuestionId\<close>; the ordering by \<open>display_order\<close> is part of the query.\<close>

definition getImagesByQuestionId ::
  "(string \<Rightarrow> thrown + ('row list option) response) \<Rightarrow> string \<Rightarrow> thrown + ('row list) envelope"
where
  "getImagesByQuestionId select_images questionId =
     try_catch
       (case select_images questionId of
          Inl e \<Rightarrow> Inl e
        | Inr (d, err) \<Rightarrow>
            (case err of
               Some m \<Rightarrow> Inl (Error (''Failed to fetch images: '' @ m))
             | None \<Rightarrow>
                 Inr \<lparr>success = True,
                      data = (case d of Some rows \<Rightarrow> rows | None \<Rightarrow> []),
                      message =
                        Some (''Found '' @ toString (case d of Some rows \<Rightarrow> length rows | None \<Rightarrow> 0)
                               @ '' images''),
                      error = None\<rparr>))
       (\<lambda>e. Inr \<lparr>success = False, data = [], message = None,
                   error = Some (error_message e)\<rparr>)"

text \<open>
  \<open>Question\<close> of the database types. \<open>QuestionData\<close> is \<open>Omit<Question, 'id' | 'created_at'>\<close>,
  the argument of \<open>insertQuestion\<close> and the shape of the row it writes; \<open>Question\<close> adds the
  two fields the store assigns. The language, category and difficulty are the strings
  they are at run time.
\<close>

record QuestionData =
  question_text :: string
  options :: "string list"
  correct_answer :: int
  language :: string
  category :: string
  difficulty :: string
  images :: "string option"

record Question = QuestionData +
  q_id :: string
  q_created_at :: string

text \<open>
  \<open>Partial<Omit<Question, 'id' | 'created_at'>>\<close>: every field may be absent; \<open>images\<close> may
  also be present and \<open>null\<close> (\<open>Some None\<close>).
\<close>

record QuestionUpdates =
  upd_question_text :: "string option"
  upd_options :: "string list option"
  upd_correct_answer :: "int option"
  upd_language :: "string option"
  upd_category :: "string option"
  upd_difficulty :: "string option"
  upd_images :: "string option option"

definition getQuestionsByLanguage ::
  "('l \<Rightarrow> nat \<Rightarrow> thrown + ('row list option) response) \<Rightarrow> 'l \<Rightarrow> nat \<Rightarrow> thrown + ('row list) envelope"
where
  "getQuestionsByLanguage select_questions lang limit =
     try_catch
       (case select_questions lang limit of
          Inl e \<Rightarrow> Inl e
        | Inr (d, err) \<Rightarrow>
            (case err of
               Some m \<Rightarrow> Inl (Error (''Failed to fetch questions: '' @ m))
             | None \<Rightarrow>
                 Inr \<lparr>success = True,
                      data = (case d of Some rows \<Rightarrow> rows | None \<Rightarrow> []),
                      message =
                        Some (''Found '' @ toString (case d of Some rows \<Rightarrow> length rows | None \<Rightarrow> 0)
                               @ '' questions''),
                      error = None\<rparr>))
       (\<lambda>e. Inr \<lparr>success = False, data = [], message = None,
                   error = Some (error_message e)\<rparr>)"

text \<open>
  \<open>insertQuestion\<close> and \<open>updateQuestion\<close>, with the list of the writes handed to the store as
  the first component of the result.
\<close>

definition insertQuestion ::
  "(string \<Rightarrow> url option) \<Rightarrow> (QuestionData \<Rightarrow> thrown + ('row option) response) \<Rightarrow> QuestionData \<Rightarrow>
     QuestionData list \<times> (thrown + ('row option) envelope)"
where
  "insertQuestion URL insert_question questionData =
     (let attempt =
        (if question_text questionData = [] \<or> options questionData = []
         then ([], Inl (Error ''question_text and options are required fields''))
         else if (case images questionData of
                    None \<Rightarrow> False
                  | Some u \<Rightarrow> u \<noteq> [] \<and> \<not> isValidImageUrl URL u)
         then ([], Inl (Error ''Invalid image URL format''))
         else
           let dataToInsert =
                 \<lparr>question_text = question_text questionData,
                  options = options questionData,
                  correct_answer = correct_answer questionData,
                  language = language questionData,
                  category = or_string (Some (category questionData)) ''general'',
                  difficulty = or_string (Some (difficulty questionData)) ''easy'',
                  images = (if truthy (images questionData) then images questionData else None)\<rparr>
           in case insert_question dataToInsert of
                Inl e \<Rightarrow> ([dataToInsert], Inl e)
              | Inr (d, err) \<Rightarrow>
                  (case err of
                     Some m \<Rightarrow> ([dataToInsert], Inl (Error (''Failed to insert question: '' @ m)))
                   | None \<Rightarrow>
                       ([dataToInsert],
                        Inr \<lparr>success = True, data = d,
                             message = Some ''Question inserted successfully'', error = None\<rparr>)))
      in (fst attempt,
          try_catch (snd attempt)
            (\<lambda>e. Inr \<lparr>success = False, data = None, message = None,
                        error = Some (error_message e)\<rparr>)))"

definition updateQuestion ::
  "(string \<Rightarrow> url option) \<Rightarrow> (string \<Rightarrow> QuestionUpdates \<Rightarrow> thrown + ('row option) response) \<Rightarrow>
     string \<Rightarrow> QuestionUpdates \<Rightarrow> (string \<times> QuestionUpdates) list \<times> (thrown + ('row option) envelope)"
where
  "updateQuestion URL update_question ident updates =
     (let attempt =
        (if (case upd_images updates of
               Some (Some u) \<Rightarrow> u \<noteq> [] \<and> \<not> isValidImageUrl URL u
             | _ \<Rightarrow> False)
         then ([], Inl (Error ''Invalid image URL format''))
         else
           case update_question ident updates of
             Inl e \<Rightarrow> ([(ident, updates)], Inl e)
           | Inr (d, err) \<Rightarrow>
               (case err of
                  Some m \<Rightarrow> ([(ident, updates)], Inl (Error (''Failed to update question: '' @ m)))
                | None \<Rightarrow>
                    ([(ident, updates)],
                     Inr \<lparr>success = True, data = d,
                          message = Some ''Question updated successfully'', error = None\<rparr>)))
      in (fst attempt,
          try_catch (snd attempt)
            (\<lambda>e. Inr \<lparr>success = False, data = None, message = None,
                        error = Some (error_message e)\<rparr>)))"

text \<open>
  The two shapes of the envelope: on success a message and no error; on failure the
  absent data (\<open>null\<close> for a row, the empty list for a list of rows), an error and no
  message.
\<close>

definition uniform_envelope :: "'d \<Rightarrow> 'd envelope \<Rightarrow> bool" where
  "uniform_envelope absent env =
     (if success env then message env \<noteq> None \<and> error env = None
      else data env = absent \<and> error env \<noteq> None \<and> message env = None)"

text \<open>The failure envelope with an error message, and the success envelope with a message.\<close>

definition failed :: "'d \<Rightarrow> string \<Rightarrow> 'd envelope" where
  "failed absent msg = \<lparr>success = False, data = absent, message = None, error = Some msg\<rparr>"

definition succeeded :: "'d \<Rightarrow> string \<Rightarrow> 'd envelope" where
  "succeeded d msg = \<lparr>success = True, data = d, message = Some msg, error = None\<rparr>"

text \<open>A store whose write succeeds and replies with the row it was given.\<close>

definition store_accepts :: "'a \<Rightarrow> thrown + ('a option) response" where
  "store_accepts row = Inr (Some row, None)"


section \<open>Test-taking flow\<close>

text \<open>
  An element of the answers array: a selected option index, \<open>null\<close> (not answered),
  \<open>undefined\<close>, or a hole of a sparse array. The last two arise only when an index past
  the end is written.
\<close>

datatype answer = Number int | Null | Undefined | Hole

record TestSession =
  s_id :: string
  user_id :: "string option"
  s_language :: string
  s_questions :: "string list"
  s_answers :: "answer list"
  score :: int
  total_questions :: int
  completed_at :: "string option"
  s_created_at :: string

text \<open>The state of the test screen: its five state variables.\<close>

record test_state =
  questions :: "Question list"
  currentQuestionIndex :: nat
  answers :: "answer list"
  loading :: bool
  testSession :: "TestSession option"

text \<open>What the clock gives when a function runs: \<open>Date.now()\<close> and \<open>new Date().toISOString()\<close>.\<close>

record clock =
  Date_now :: nat
  toISOString :: string

text \<open>A string literal of the source outside ASCII, as its UTF-8 bytes.\<close>

definition utf8 :: "nat list \<Rightarrow> string" where
  "utf8 bytes = map char_of bytes"

definition sampleQuestions :: "string \<Rightarrow> clock \<Rightarrow> Question list" where
  "sampleQuestions lang now =
     [\<lparr>question_text =
         (if lang = ''en'' then ''What is the capital of India?''
          else if lang = ''hi'' then utf8
              [224, 164, 173, 224, 164, 190, 224, 164, 176, 224, 164, 164, 32, 224,
               164, 149, 224, 165, 128, 32, 224, 164, 176, 224, 164, 190, 224, 164,
               156, 224, 164, 167, 224, 164, 190, 224, 164, 168, 224, 165, 128, 32,
               224, 164, 149, 224, 165, 141, 224, 164, 175, 224, 164, 190, 32, 224,
               164, 185, 224, 165, 136, 63]
          else utf8
              [224, 176, 173, 224, 176, 190, 224, 176, 176, 224, 176, 164, 224, 176,
               166, 224, 177, 135, 224, 176, 182, 32, 224, 176, 176, 224, 176, 190,
               224, 176, 156, 224, 176, 167, 224, 176, 190, 224, 176, 168, 224, 176,
               191, 32, 224, 176, 143, 224, 176, 166, 224, 176, 191, 63]),
       options =
         (if lang = ''en'' then [''Mumbai'', ''Delhi'', ''Kolkata'', ''Chennai'']
          else if lang = ''hi'' then
            [utf8
               [224, 164, 174, 224, 165, 129, 224, 164, 130, 224, 164, 172, 224, 164,
                136],
             utf8
               [224, 164, 166, 224, 164, 191, 224, 164, 178, 224, 165, 141, 224, 164,
                178, 224, 165, 128],
             utf8
               [224, 164, 149, 224, 165, 139, 224, 164, 178, 224, 164, 149, 224, 164,
                190, 224, 164, 164, 224, 164, 190],
             utf8
               [224, 164, 154, 224, 165, 135, 224, 164, 168, 224, 165, 141, 224, 164,
                168, 224, 164, 136]]
          else
            [utf8
               [224, 176, 174, 224, 177, 129, 224, 176, 130, 224, 176, 172, 224, 177,
                136],
             utf8
               [224, 176, 162, 224, 176, 191, 224, 176, 178, 224, 177, 141, 224, 176,
                178, 224, 177, 128],
             utf8
               [224, 176, 149, 224, 177, 139, 224, 176, 178, 224, 177, 141, 226, 128,
                140, 224, 176, 149, 224, 176, 164, 224, 176, 190],
             utf8
               [224, 176, 154, 224, 177, 134, 224, 176, 168, 224, 177, 141, 224, 176,
                168, 224, 177, 136]]),
       correct_answer = 1,
       language = lang,
       category = ''general'',
       difficulty = ''easy'',
       images = Some ''https://images.pexels.com/photos/1486222/pexels-photo-1486222.jpeg?auto=compress&cs=tinysrgb&w=800'',
       q_id = ''1'',
       q_created_at = toISOString now\<rparr>,
      \<lparr>question_text =
         (if lang = ''en'' then ''Which planet is known as the Red Planet?''
          else if lang = ''hi'' then utf8
              [224, 164, 149, 224, 165, 140, 224, 164, 168, 32, 224, 164, 184, 224,
               164, 190, 32, 224, 164, 151, 224, 165, 141, 224, 164, 176, 224, 164,
               185, 32, 224, 164, 178, 224, 164, 190, 224, 164, 178, 32, 224, 164, 151,
               224, 165, 141, 224, 164, 176, 224, 164, 185, 32, 224, 164, 149, 224,
               165, 135, 32, 224, 164, 168, 224, 164, 190, 224, 164, 174, 32, 224, 164,
               184, 224, 165, 135, 32, 224, 164, 156, 224, 164, 190, 224, 164, 168,
               224, 164, 190, 32, 224, 164, 156, 224, 164, 190, 224, 164, 164, 224,
               164, 190, 32, 224, 164, 185, 224, 165, 136, 63]
          else utf8
              [224, 176, 143, 32, 224, 176, 151, 224, 177, 141, 224, 176, 176, 224,
               176, 185, 224, 176, 190, 224, 176, 168, 224, 177, 141, 224, 176, 168,
               224, 176, 191, 32, 224, 176, 176, 224, 177, 134, 224, 176, 161, 224,
               177, 141, 32, 224, 176, 170, 224, 177, 141, 224, 176, 178, 224, 176,
               190, 224, 176, 168, 224, 177, 134, 224, 176, 159, 224, 177, 141, 32,
               224, 176, 133, 224, 176, 168, 224, 176, 191, 32, 224, 176, 170, 224,
               176, 191, 224, 176, 178, 224, 177, 129, 224, 176, 184, 224, 177, 141,
               224, 176, 164, 224, 176, 190, 224, 176, 176, 224, 177, 129, 63]),
       options =
         (if lang = ''en'' then [''Venus'', ''Mars'', ''Jupiter'', ''Saturn'']
          else if lang = ''hi'' then
            [utf8
               [224, 164, 182, 224, 165, 129, 224, 164, 149, 224, 165, 141, 224, 164,
                176],
             utf8
               [224, 164, 174, 224, 164, 130, 224, 164, 151, 224, 164, 178],
             utf8
               [224, 164, 172, 224, 165, 131, 224, 164, 185, 224, 164, 184, 224, 165,
                141, 224, 164, 170, 224, 164, 164, 224, 164, 191],
             utf8
               [224, 164, 182, 224, 164, 168, 224, 164, 191]]
          else
            [utf8
               [224, 176, 182, 224, 177, 129, 224, 176, 149, 224, 177, 141, 224, 176,
                176, 224, 177, 129, 224, 176, 161, 224, 177, 129],
             utf8
               [224, 176, 174, 224, 176, 130, 224, 176, 151, 224, 176, 179, 224, 177,
                129, 224, 176, 161, 224, 177, 129],
             utf8
               [224, 176, 172, 224, 177, 131, 224, 176, 185, 224, 176, 184, 224, 177,
                141, 224, 176, 170, 224, 176, 164, 224, 176, 191],
             utf8
               [224, 176, 182, 224, 176, 168, 224, 176, 191]]),
       correct_answer = 1,
       language = lang,
       category = ''science'',
       difficulty = ''easy'',
       images = Some ''https://images.pexels.com/photos/87009/earth-soil-creep-moon-lunar-surface-87009.jpeg?auto=compress&cs=tinysrgb&w=800'',
       q_id = ''2'',
       q_created_at = toISOString now\<rparr>,
      \<lparr>question_text =
         (if lang = ''en'' then ''What mathematical operation is shown?''
          else if lang = ''hi'' then utf8
              [224, 164, 149, 224, 165, 140, 224, 164, 168, 32, 224, 164, 184, 224,
               164, 190, 32, 224, 164, 151, 224, 164, 163, 224, 164, 191, 224, 164,
               164, 224, 165, 128, 224, 164, 175, 32, 224, 164, 145, 224, 164, 170,
               224, 164, 176, 224, 165, 135, 224, 164, 182, 224, 164, 168, 32, 224,
               164, 166, 224, 164, 191, 224, 164, 150, 224, 164, 190, 224, 164, 175,
               224, 164, 190, 32, 224, 164, 151, 224, 164, 175, 224, 164, 190, 32, 224,
               164, 185, 224, 165, 136, 63]
          else utf8
              [224, 176, 143, 32, 224, 176, 151, 224, 176, 163, 224, 176, 191, 224,
               176, 164, 32, 224, 176, 134, 224, 176, 170, 224, 176, 176, 224, 177,
               135, 224, 176, 183, 224, 176, 168, 224, 177, 141, 32, 224, 176, 154,
               224, 177, 130, 224, 176, 170, 224, 176, 172, 224, 176, 161, 224, 176,
               191, 224, 176, 130, 224, 176, 166, 224, 176, 191, 63]),
       options =
         (if lang = ''en'' then [''Addition'', ''Subtraction'', ''Multiplication'', ''Division'']
          else if lang = ''hi'' then
            [utf8
               [224, 164, 156, 224, 165, 139, 224, 164, 161, 224, 164, 188],
             utf8
               [224, 164, 152, 224, 164, 159, 224, 164, 190, 224, 164, 181],
             utf8
               [224, 164, 151, 224, 165, 129, 224, 164, 163, 224, 164, 190],
             utf8
               [224, 164, 173, 224, 164, 190, 224, 164, 151]]
          else
            [utf8
               [224, 176, 149, 224, 177, 130, 224, 176, 161, 224, 176, 191, 224, 176,
                149],
             utf8
               [224, 176, 164, 224, 177, 128, 224, 176, 184, 224, 176, 191, 224, 176,
                181, 224, 177, 135, 224, 176, 164],
             utf8
               [224, 176, 151, 224, 177, 129, 224, 176, 163, 224, 176, 149, 224, 176,
                190, 224, 176, 176, 224, 176, 130],
             utf8
               [224, 176, 173, 224, 176, 190, 224, 176, 151, 224, 176, 185, 224, 176,
                190, 224, 176, 176, 224, 176, 130]]),
       correct_answer = 2,
       language = lang,
       category = ''mathematics'',
       difficulty = ''easy'',
       images = Some ''https://images.pexels.com/photos/6238297/pexels-photo-6238297.jpeg?auto=compress&cs=tinysrgb&w=800'',
       q_id = ''3'',
       q_created_at = toISOString now\<rparr>]"

text \<open>
  \<open>loadSampleQuestions\<close> and \<open>loadQuestions\<close>, as the state they leave. The alert shown when
  the fetch fails is not part of the state.
\<close>

definition loadSampleQuestions :: "string \<Rightarrow> clock \<Rightarrow> test_state \<Rightarrow> test_state" where
  "loadSampleQuestions lang now s =
     s\<lparr>questions := sampleQuestions lang now,
       answers := replicate (length (sampleQuestions lang now)) Null,
       testSession :=
         Some \<lparr>s_id = toString (Date_now now),
               user_id = None,
               s_language = lang,
               s_questions = map q_id (sampleQuestions lang now),
               s_answers = replicate (length (sampleQuestions lang now)) Null,
               score = 0,
               total_questions = int (length (sampleQuestions lang now)),
               completed_at = None,
               s_created_at = toISOString now\<rparr>\<rparr>"

definition loadQuestions ::
  "(string \<Rightarrow> nat \<Rightarrow> thrown + (Question list option) response) \<Rightarrow> string \<Rightarrow> clock \<Rightarrow>
     test_state \<Rightarrow> test_state"
where
  "loadQuestions select_questions lang now s =
     (case getQuestionsByLanguage select_questions lang 10 of
        Inl e \<Rightarrow> loadSampleQuestions lang now s
      | Inr result \<Rightarrow>
          if \<not> success result then loadSampleQuestions lang now s
          else if data result \<noteq> [] then
            s\<lparr>questions := data result,
              answers := replicate (length (data result)) Null,
              testSession :=
                Some \<lparr>s_id = toString (Date_now now),
                      user_id = None,
                      s_language = lang,
                      s_questions = map q_id (data result),
                      s_answers = replicate (length (data result)) Null,
                      score = 0,
                      total_questions = int (length (data result)),
                      completed_at = None,
                      s_created_at = toISOString now\<rparr>\<rparr>
          else loadSampleQuestions lang now s)
       \<lparr>loading := False\<rparr>"

text \<open>
  \<open>handleAnswerSelect\<close>: the spread copy turns holes into \<open>undefined\<close>; the assignment
  overwrites an index of the array and extends the array, with holes, for an index past
  its end.
\<close>

definition array_set :: "answer list \<Rightarrow> nat \<Rightarrow> answer \<Rightarrow> answer list" where
  "array_set xs i v =
     (if i < length xs then xs[i := v] else xs @ replicate (i - length xs) Hole @ [v])"

definition handleAnswerSelect :: "int \<Rightarrow> test_state \<Rightarrow> test_state" where
  "handleAnswerSelect optionIndex s =
     (let newAnswers = map (\<lambda>a. if a = Hole then Undefined else a) (answers s)
      in s\<lparr>answers := array_set newAnswers (currentQuestionIndex s) (Number optionIndex)\<rparr>)"

definition handleNext :: "test_state \<Rightarrow> test_state" where
  "handleNext s =
     (if int (currentQuestionIndex s) < int (length (questions s)) - 1
      then s\<lparr>currentQuestionIndex := currentQuestionIndex s + 1\<rparr>
      else s)"

definition handlePrevious :: "test_state \<Rightarrow> test_state" where
  "handlePrevious s =
     (if currentQuestionIndex s > 0
      then s\<lparr>currentQuestionIndex := currentQuestionIndex s - 1\<rparr>
      else s)"

text \<open>
  The \<open>reduce\<close> of \<open>handleSubmit\<close>, from position \<open>index\<close> on with the running total. A
  hole is skipped; at any other element \<open>questions[index].correct_answer\<close> is read, which
  throws a \<open>TypeError\<close> when the question list has no such index.
\<close>

definition TypeError :: thrown where
  "TypeError = Error ''Cannot read properties of undefined (reading correct_answer)''"

fun reduce_score :: "Question list \<Rightarrow> answer list \<Rightarrow> nat \<Rightarrow> int \<Rightarrow> thrown + int" where
  "reduce_score qs [] index total' = Inr total'"
| "reduce_score qs (a # as) index total' =
     (if a = Hole then reduce_score qs as (index + 1) total'
      else if index < length qs then
        reduce_score qs as (index + 1)
          (if a = Number (correct_answer (qs ! index)) then total' + 1 else total')
      else Inl TypeError)"

text \<open>
  \<open>handleSubmit\<close>. \<open>None\<close> is the early return when there is no session. Otherwise the
  result holds the completed session handed to the store's insert and the parameters
  pushed to the results route; score and total are passed as decimal strings there and
  parsed back, and are kept as numbers here. A rejected insert is caught and logged.
\<close>

record submitted =
  completedSession :: TestSession
  param_score :: int
  param_total :: int
  param_sessionId :: string

definition handleSubmit ::
  "(TestSession \<Rightarrow> thrown + unit) \<Rightarrow> clock \<Rightarrow> test_state \<Rightarrow> thrown + submitted option"
where
  "handleSubmit insert_test_session now s =
     (case testSession s of
        None \<Rightarrow> Inr None
      | Some session \<Rightarrow>
          (case reduce_score (questions s) (answers s) 0 0 of
             Inl e \<Rightarrow> Inl e
           | Inr score' \<Rightarrow>
               let completed =
                     session\<lparr>s_answers := answers s, score := score',
                             completed_at := Some (toISOString now)\<rparr>
               in (case try_catch (insert_test_session completed) (\<lambda>e. Inr ()) of
                     Inl e \<Rightarrow> Inl e
                   | Inr _ \<Rightarrow>
                       Inr (Some \<lparr>completedSession = completed,
                                  param_score = score',
                                  param_total = int (length (questions s)),
                                  param_sessionId = s_id session\<rparr>))))"

text \<open>
  The states the test screen can be in. It mounts with empty lists and the loading flag
  set. \<open>loadQuestions\<close> runs on mount and again whenever the language changes, whatever the
  store replies. The option buttons are drawn from \<open>questions[currentQuestionIndex]\<close>, so
  an answer is selected only while that question exists; the navigation handlers may run
  at any time.
\<close>

definition initial_state :: test_state where
  "initial_state =
     \<lparr>questions = [], currentQuestionIndex = 0, answers = [], loading = True, testSession = None\<rparr>"

inductive reachable :: "test_state \<Rightarrow> bool" where
  reach_mount: "reachable initial_state"
| reach_load: "reachable s \<Longrightarrow> reachable (loadQuestions select_questions lang now s)"
| reach_select:
    "reachable s \<Longrightarrow> currentQuestionIndex s < length (questions s) \<Longrightarrow>
     reachable (handleAnswerSelect optionIndex s)"
| reach_next: "reachable s \<Longrightarrow> reachable (handleNext s)"
| reach_previous: "reachable s \<Longrightarrow> reachable (handlePrevious s)"

text \<open>
  The invariant of the reachable states: the answers array is as long as the question
  list, and a session, once created, records that length as its total and holds one
  question identifier per question.
\<close>

definition consistent :: "test_state \<Rightarrow> bool" where
  "consistent s =
     (length (answers s) = length (questions s) \<and>
      (case testSession s of
         None \<Rightarrow> True
       | Some session \<Rightarrow>
           total_questions session = int (length (questions s)) \<and>
           length (s_questions session) = length (questions s)))"

text \<open>
  The scenario of the specification as a run of the screen: the store has no rows, so the
  three built-in questions (correct answers 1, 1, 2) are loaded; the user selects option
  1, moves on, selects option 0, moves on, and selects option 2.
\<close>

definition scenario_state :: "clock \<Rightarrow> test_state" where
  "scenario_state now =
     handleAnswerSelect 2
       (handleNext
          (handleAnswerSelect 0
             (handleNext
                (handleAnswerSelect 1
                   (loadQuestions (\<lambda>lang limit. Inr (Some [], None)) ''en'' now initial_state)))))"


section \<open>Results view\<close>










section \<open>Properties of the image URL validator\<close>

lemma str_includes_sublist: "str_includes s p = sublist p s"
  by (induction s) (auto simp: sublist_Cons_right)

lemmas parse_URL_simps = parse_URL_def parse_query_def scheme_char_def
  toLowerCase_def toLowerCase_char_def Let_def

lemmas isValidImageUrl_simps = isValidImageUrl_def toLowerCase_def toLowerCase_char_def
  imageExtensions_def imageHosts_def

lemma parse_URL_not_a_url: "parse_URL ''not a url'' = None"
  by (simp add: parse_URL_simps)

lemma parse_URL_pexels:
  "parse_URL ''https://images.pexels.com/photos/1/x.jpeg'' =
     Some \<lparr>protocol = ''https:'', hostname = ''images.pexels.com'',
           pathname = ''/photos/1/x.jpeg'', searchParams = []\<rparr>"
  by (simp add: parse_URL_simps)

lemma parse_URL_ftp:
  "parse_URL ''ftp://x.com/a.png'' =
     Some \<lparr>protocol = ''ftp:'', hostname = ''x.com'', pathname = ''/a.png'', searchParams = []\<rparr>"
  by (simp add: parse_URL_simps)

lemma parse_URL_upper_images:
  "parse_URL ''https://example.com/IMAGES/a'' =
     Some \<lparr>protocol = ''https:'', hostname = ''example.com'', pathname = ''/IMAGES/a'',
           searchParams = []\<rparr>"
  by (simp add: parse_URL_simps)

lemma parse_URL_png_txt:
  "parse_URL ''https://example.com/a.png.txt'' =
     Some \<lparr>protocol = ''https:'', hostname = ''example.com'', pathname = ''/a.png.txt'',
           searchParams = []\<rparr>"
  by (simp add: parse_URL_simps)

lemma parse_URL_upper_png:
  "parse_URL ''https://example.com/Pic.PNG'' =
     Some \<lparr>protocol = ''https:'', hostname = ''example.com'', pathname = ''/Pic.PNG'',
           searchParams = []\<rparr>"
  by (simp add: parse_URL_simps)

lemma parse_URL_plain:
  "parse_URL ''https://example.com/a'' =
     Some \<lparr>protocol = ''https:'', hostname = ''example.com'', pathname = ''/a'',
           searchParams = []\<rparr>"
  by (simp add: parse_URL_simps)

lemma isValidImageUrl_pexels:
  "isValidImageUrl parse_URL ''https://images.pexels.com/photos/1/x.jpeg''"
  by (simp add: isValidImageUrl_def parse_URL_pexels toLowerCase_def toLowerCase_char_def
      imageExtensions_def imageHosts_def)

lemma isValidImageUrl_not_a_url: "\<not> isValidImageUrl parse_URL ''not a url''"
  by (simp add: isValidImageUrl_def parse_URL_not_a_url)

lemma isValidImageUrl_upper_png: "isValidImageUrl parse_URL ''https://example.com/Pic.PNG''"
  by (simp add: isValidImageUrl_simps parse_URL_upper_png)

lemma isValidImageUrl_plain: "\<not> isValidImageUrl parse_URL ''https://example.com/a''"
  by (simp add: isValidImageUrl_simps parse_URL_plain)

lemma isValidImageUrl_parsed:
  assumes "URL url = Some u" and "url \<noteq> []" and "protocol u \<in> {''http:'', ''https:''}"
  shows "isValidImageUrl URL url \<longleftrightarrow>
           (\<exists>ext \<in> set imageExtensions. sublist ext (toLowerCase (pathname u))) \<or>
           (\<exists>host \<in> set imageHosts. sublist host (toLowerCase (hostname u))) \<or>
           sublist ''/images/'' (toLowerCase (pathname u)) \<or>
           ''w'' \<in> fst ` set (searchParams u) \<or> ''width'' \<in> fst ` set (searchParams u)"
  using assms
  by (simp add: isValidImageUrl_def Let_def list_ex_iff str_includes_sublist del: set_simps)
    (auto)

text \<open>
  C9: for every URL constructor that parses the three strings as the URL Standard
  prescribes (the first has no scheme and is refused; the other two have the protocols
  \<open>https:\<close> and \<open>ftp:\<close>), \<open>isValidImageUrl\<close> returns false on \<open>not a url\<close>, true on
  \<open>https://images.pexels.com/photos/1/x.jpeg\<close> and false on \<open>ftp://x.com/a.png\<close>.
\<close>

theorem isValidImageUrl_examples:
  assumes "URL ''not a url'' = None"
    and "URL ''https://images.pexels.com/photos/1/x.jpeg'' =
           Some \<lparr>protocol = ''https:'', hostname = ''images.pexels.com'',
                 pathname = ''/photos/1/x.jpeg'', searchParams = []\<rparr>"
    and "URL ''ftp://x.com/a.png'' =
           Some \<lparr>protocol = ''ftp:'', hostname = ''x.com'', pathname = ''/a.png'',
                 searchParams = []\<rparr>"
  shows "\<not> isValidImageUrl URL ''not a url'' \<and>
         isValidImageUrl URL ''https://images.pexels.com/photos/1/x.jpeg'' \<and>
         \<not> isValidImageUrl URL ''ftp://x.com/a.png''"
  using assms
  by (simp add: isValidImageUrl_def toLowerCase_def toLowerCase_char_def imageExtensions_def
      imageHosts_def)

theorem isValidImageUrl_examples_witness:
  "\<not> isValidImageUrl parse_URL ''not a url'' \<and>
   isValidImageUrl parse_URL ''https://images.pexels.com/photos/1/x.jpeg'' \<and>
   \<not> isValidImageUrl parse_URL ''ftp://x.com/a.png''"
  by (rule isValidImageUrl_examples [OF parse_URL_not_a_url parse_URL_pexels parse_URL_ftp])

text \<open>
  C2, as stated, fails. \<open>isValidImageUrl\<close> compares the path in lower case, so it accepts
  \<open>https://example.com/IMAGES/a\<close>, whose path does not contain \<open>/images/\<close>; and it looks for
  an extension anywhere in the path, so it accepts \<open>https://example.com/a.png.txt\<close>, whose
  path does not end in an extension. The predicate of the specification rejects both.
\<close>

theorem isValidImageUrl_spec_counterexample:
  "isValidImageUrl parse_URL ''https://example.com/IMAGES/a'' \<and>
   \<not> isValidImageUrl_spec parse_URL ''https://example.com/IMAGES/a'' \<and>
   isValidImageUrl parse_URL ''https://example.com/a.png.txt'' \<and>
   \<not> isValidImageUrl_spec parse_URL ''https://example.com/a.png.txt''"
  by (simp add: isValidImageUrl_simps isValidImageUrl_spec_def parse_URL_upper_images
      parse_URL_png_txt suffix_to_prefix)

text \<open>
  C2, amended: \<open>isValidImageUrl\<close> returns false for the empty string, for a string that does
  not parse and for a protocol other than \<open>http:\<close> and \<open>https:\<close>. For a non-empty string
  that parses with one of these protocols, with the path and the host name taken in lower
  case: it returns true when the path ends in one of the eight extensions, or the host
  name is one of the six hosts, or the path contains \<open>/images/\<close>, or the query has a
  parameter \<open>w\<close> or \<open>width\<close>; and it returns false when no extension and no listed host
  occurs anywhere in the path and the host name, the path does not contain \<open>/images/\<close> and
  the query has neither parameter.
\<close>

theorem isValidImageUrl_amended:
  "(url = [] \<or> URL url = None \<or> (\<exists>u. URL url = Some u \<and> protocol u \<notin> {''http:'', ''https:''}) \<longrightarrow>
      \<not> isValidImageUrl URL url) \<and>
   (\<forall>u. url \<noteq> [] \<and> URL url = Some u \<and> protocol u \<in> {''http:'', ''https:''} \<longrightarrow>
      ((\<exists>ext \<in> set imageExtensions. suffix ext (toLowerCase (pathname u))) \<or>
       toLowerCase (hostname u) \<in> set imageHosts \<or>
       sublist ''/images/'' (toLowerCase (pathname u)) \<or>
       ''w'' \<in> fst ` set (searchParams u) \<or> ''width'' \<in> fst ` set (searchParams u) \<longrightarrow>
         isValidImageUrl URL url) \<and>
      ((\<forall>ext \<in> set imageExtensions. \<not> sublist ext (toLowerCase (pathname u))) \<and>
       (\<forall>host \<in> set imageHosts. \<not> sublist host (toLowerCase (hostname u))) \<and>
       \<not> sublist ''/images/'' (toLowerCase (pathname u)) \<and>
       ''w'' \<notin> fst ` set (searchParams u) \<and> ''width'' \<notin> fst ` set (searchParams u) \<longrightarrow>
         \<not> isValidImageUrl URL url))"
proof (intro conjI allI impI)
  assume "url = [] \<or> URL url = None \<or> (\<exists>u. URL url = Some u \<and> protocol u \<notin> {''http:'', ''https:''})"
  then show "\<not> isValidImageUrl URL url"
    by (auto simp: isValidImageUrl_def)
next
  fix u
  assume parsed: "url \<noteq> [] \<and> URL url = Some u \<and> protocol u \<in> {''http:'', ''https:''}"
    and "(\<exists>ext \<in> set imageExtensions. suffix ext (toLowerCase (pathname u))) \<or>
       toLowerCase (hostname u) \<in> set imageHosts \<or>
       sublist ''/images/'' (toLowerCase (pathname u)) \<or>
       ''w'' \<in> fst ` set (searchParams u) \<or> ''width'' \<in> fst ` set (searchParams u)"
  then have "(\<exists>ext \<in> set imageExtensions. sublist ext (toLowerCase (pathname u))) \<or>
           (\<exists>host \<in> set imageHosts. sublist host (toLowerCase (hostname u))) \<or>
           sublist ''/images/'' (toLowerCase (pathname u)) \<or>
           ''w'' \<in> fst ` set (searchParams u) \<or> ''width'' \<in> fst ` set (searchParams u)"
    by (meson suffix_imp_sublist sublist_order.order_refl)
  with parsed show "isValidImageUrl URL url"
    by (simp add: isValidImageUrl_parsed)
next
  fix u
  assume parsed: "url \<noteq> [] \<and> URL url = Some u \<and> protocol u \<in> {''http:'', ''https:''}"
    and "(\<forall>ext \<in> set imageExtensions. \<not> sublist ext (toLowerCase (pathname u))) \<and>
       (\<forall>host \<in> set imageHosts. \<not> sublist host (toLowerCase (hostname u))) \<and>
       \<not> sublist ''/images/'' (toLowerCase (pathname u)) \<and>
       ''w'' \<notin> fst ` set (searchParams u) \<and> ''width'' \<notin> fst ` set (searchParams u)"
  then show "\<not> isValidImageUrl URL url"
    by (simp add: isValidImageUrl_parsed)
qed

theorem isValidImageUrl_amended_witness:
  "\<not> isValidImageUrl parse_URL ''ftp://x.com/a.png'' \<and>
   isValidImageUrl parse_URL ''https://example.com/Pic.PNG'' \<and>
   \<not> isValidImageUrl parse_URL ''https://example.com/a''"
proof -
  have "suffix ''.png'' (toLowerCase ''/Pic.PNG'')"
    by (simp add: toLowerCase_def toLowerCase_char_def suffix_to_prefix)
  then have "\<exists>ext \<in> set imageExtensions. suffix ext (toLowerCase ''/Pic.PNG'')"
    by (simp add: imageExtensions_def)
  moreover have "(\<forall>ext \<in> set imageExtensions. \<not> sublist ext (toLowerCase ''/a'')) \<and>
       (\<forall>host \<in> set imageHosts. \<not> sublist host (toLowerCase ''example.com'')) \<and>
       \<not> sublist ''/images/'' (toLowerCase ''/a'')"
    by (simp add: imageExtensions_def imageHosts_def toLowerCase_def toLowerCase_char_def
        flip: str_includes_sublist)
  ultimately show ?thesis
    using isValidImageUrl_amended [of "''ftp://x.com/a.png''" parse_URL]
      isValidImageUrl_amended [of "''https://example.com/Pic.PNG''" parse_URL]
      isValidImageUrl_amended [of "''https://example.com/a''" parse_URL]
    by (simp add: parse_URL_upper_png parse_URL_plain parse_URL_ftp)
qed


section \<open>Properties of the network probe\<close>

text \<open>
  C7: \<open>validateImageUrl\<close>, for every URL constructor, every string and every behaviour
  of the network. It resolves to false when \<open>isValidImageUrl\<close> is false. Otherwise, when
  the HEAD request resolves, it resolves to whether the response is ok and either its
  content type starts with \<open>image/\<close> or its status is 200; when the HEAD request rejects, it
  issues the GET request with the header \<open>Range: bytes=0-1023\<close> and resolves to whether that
  response is ok; and when both requests reject it resolves to true. It never rejects.
\<close>

theorem validateImageUrl_probe:
  "(\<not> isValidImageUrl URL url \<longrightarrow> validateImageUrl URL fetch url = Inr False) \<and>
   (isValidImageUrl URL url \<longrightarrow>
      (\<forall>r. fetch url \<lparr>req_method = ''HEAD'', req_headers = [(''Accept'', ''image/*'')]\<rparr> = Inr r \<longrightarrow>
           validateImageUrl URL fetch url =
             Inr (ok r \<and>
                  ((\<exists>ct. headers_get r ''content-type'' = Some ct \<and> prefix ''image/'' ct) \<or>
                   status r = 200))) \<and>
      (\<forall>e. fetch url \<lparr>req_method = ''HEAD'', req_headers = [(''Accept'', ''image/*'')]\<rparr> = Inl e \<longrightarrow>
           (\<forall>r. fetch url
                  \<lparr>req_method = ''GET'',
                   req_headers = [(''Range'', ''bytes=0-1023''), (''Accept'', ''image/*'')]\<rparr> = Inr r \<longrightarrow>
                validateImageUrl URL fetch url = Inr (ok r)) \<and>
           (\<forall>e'. fetch url
                   \<lparr>req_method = ''GET'',
                    req_headers = [(''Range'', ''bytes=0-1023''), (''Accept'', ''image/*'')]\<rparr> = Inl e' \<longrightarrow>
                validateImageUrl URL fetch url = Inr True)))"
  by (auto simp: validateImageUrl_def split: option.splits)

theorem validateImageUrl_probe_witness:
  "validateImageUrl parse_URL (\<lambda>u init. Inl NonError) ''not a url'' = Inr False \<and>
   validateImageUrl parse_URL
     (\<lambda>u init. if req_method init = ''HEAD''
        then Inr \<lparr>ok = True, status = 204, headers_get = [''content-type'' \<mapsto> ''image/png'']\<rparr>
        else Inl NonError)
     ''https://images.pexels.com/photos/1/x.jpeg'' = Inr True \<and>
   validateImageUrl parse_URL
     (\<lambda>u init. if req_method init = ''HEAD'' then Inl (Error ''Network request failed'')
        else Inr \<lparr>ok = False, status = 404, headers_get = (\<lambda>name. None)\<rparr>)
     ''https://images.pexels.com/photos/1/x.jpeg'' = Inr False \<and>
   validateImageUrl parse_URL (\<lambda>u init. Inl (Error ''Network request failed''))
     ''https://images.pexels.com/photos/1/x.jpeg'' = Inr True"
  using isValidImageUrl_not_a_url isValidImageUrl_pexels
    validateImageUrl_probe [of parse_URL "''not a url''" "\<lambda>u init. Inl NonError"]
    validateImageUrl_probe [of parse_URL "''https://images.pexels.com/photos/1/x.jpeg''"
      "\<lambda>u init. if req_method init = ''HEAD''
         then Inr \<lparr>ok = True, status = 204, headers_get = [''content-type'' \<mapsto> ''image/png'']\<rparr>
         else Inl NonError"]
    validateImageUrl_probe [of parse_URL "''https://images.pexels.com/photos/1/x.jpeg''"
      "\<lambda>u init. if req_method init = ''HEAD'' then Inl (Error ''Network request failed'')
         else Inr \<lparr>ok = False, status = 404, headers_get = (\<lambda>name. None)\<rparr>"]
    validateImageUrl_probe [of parse_URL "''https://images.pexels.com/photos/1/x.jpeg''"
      "\<lambda>u init. Inl (Error ''Network request failed'')"]
  by simp


section \<open>Properties of the data-access layer\<close>

lemma try_catch_uniform:
  assumes "\<And>v. body = Inr v \<Longrightarrow> uniform_envelope absent v"
  shows "\<exists>env. try_catch body (\<lambda>e. Inr \<lparr>success = False, data = absent, message = None,
                                   error = Some (error_message e)\<rparr>) = Inr env \<and>
         uniform_envelope absent env"
  using assms by (cases body) (simp_all add: try_catch_def uniform_envelope_def)

lemma getQuestionsByLanguage_envelope:
  "\<exists>env. getQuestionsByLanguage select_questions lang limit = Inr env \<and> uniform_envelope [] env"
  unfolding getQuestionsByLanguage_def
  by (rule try_catch_uniform)
    (auto simp: uniform_envelope_def split: sum.splits option.splits prod.splits)

lemma getImagesByQuestionId_envelope:
  "\<exists>env. getImagesByQuestionId select_images questionId = Inr env \<and> uniform_envelope [] env"
  unfolding getImagesByQuestionId_def
  by (rule try_catch_uniform)
    (auto simp: uniform_envelope_def split: sum.splits option.splits prod.splits)

lemma insertImage_envelope:
  "\<exists>env. snd (insertImage insert_image imageData) = Inr env \<and> uniform_envelope None env"
  unfolding insertImage_def Let_def snd_conv
  by (rule try_catch_uniform)
    (auto simp: uniform_envelope_def split: if_splits sum.splits option.splits prod.splits)

lemma insertQuestion_envelope:
  "\<exists>env. snd (insertQuestion URL insert_question questionData) = Inr env \<and>
         uniform_envelope None env"
  unfolding insertQuestion_def Let_def snd_conv
  by (rule try_catch_uniform)
    (auto simp: uniform_envelope_def split: if_splits sum.splits option.splits prod.splits)

lemma updateQuestion_envelope:
  "\<exists>env. snd (updateQuestion URL update_question ident updates) = Inr env \<and>
         uniform_envelope None env"
  unfolding updateQuestion_def Let_def snd_conv
  by (rule try_catch_uniform)
    (auto simp: uniform_envelope_def split: if_splits sum.splits option.splits prod.splits)

lemma insertImage_writes:
  "fst (insertImage insert_image imageData) =
     (if \<not> truthy (question_id imageData) \<or> \<not> truthy (image_url imageData) then []
      else [\<lparr>question_id = question_id imageData,
             image_url = image_url imageData,
             image_alt = Some (or_string (image_alt imageData) []),
             image_type = Some (or_string (image_type imageData) ''general''),
             display_order = Some (or_number (display_order imageData) 1)\<rparr>])"
  by (simp add: insertImage_def Let_def split: sum.splits prod.splits option.splits)

lemma insertImage_rejected:
  "\<not> truthy (question_id imageData) \<or> \<not> truthy (image_url imageData) \<Longrightarrow>
     insertImage insert_image imageData =
       ([], Inr \<lparr>success = False, data = None, message = None,
                 error = Some ''question_id and image_url are required fields''\<rparr>)"
  by (auto simp: insertImage_def try_catch_def error_message_def)

lemma insertImage_returns_row:
  assumes "truthy (question_id imageData)" and "truthy (image_url imageData)"
    and "insert_image
           \<lparr>question_id = question_id imageData,
            image_url = image_url imageData,
            image_alt = Some (or_string (image_alt imageData) []),
            image_type = Some (or_string (image_type imageData) ''general''),
            display_order = Some (or_number (display_order imageData) 1)\<rparr> = Inr (d, None)"
  shows "snd (insertImage insert_image imageData) =
           Inr \<lparr>success = True, data = d, message = Some ''Image inserted successfully'',
                error = None\<rparr>"
  using assms by (simp add: insertImage_def try_catch_def Let_def)

lemma insertQuestion_rejected_required:
  "question_text questionData = [] \<or> options questionData = [] \<Longrightarrow>
     insertQuestion URL insert_question questionData =
       ([], Inr \<lparr>success = False, data = None, message = None,
                 error = Some ''question_text and options are required fields''\<rparr>)"
  by (auto simp: insertQuestion_def try_catch_def error_message_def)

lemma insertQuestion_rejected_image:
  "question_text questionData \<noteq> [] \<Longrightarrow> options questionData \<noteq> [] \<Longrightarrow>
   images questionData = Some u \<Longrightarrow> u \<noteq> [] \<Longrightarrow> \<not> isValidImageUrl URL u \<Longrightarrow>
     insertQuestion URL insert_question questionData =
       ([], Inr \<lparr>success = False, data = None, message = None,
                 error = Some ''Invalid image URL format''\<rparr>)"
  by (simp add: insertQuestion_def try_catch_def error_message_def)

lemma insertQuestion_writes:
  "fst (insertQuestion URL insert_question questionData) =
     (if question_text questionData = [] \<or> options questionData = [] \<or>
         (case images questionData of None \<Rightarrow> False | Some u \<Rightarrow> u \<noteq> [] \<and> \<not> isValidImageUrl URL u)
      then []
      else [\<lparr>question_text = question_text questionData,
             options = options questionData,
             correct_answer = correct_answer questionData,
             language = language questionData,
             category = or_string (Some (category questionData)) ''general'',
             difficulty = or_string (Some (difficulty questionData)) ''easy'',
             images = (if truthy (images questionData) then images questionData else None)\<rparr>])"
  by (simp add: insertQuestion_def Let_def split: sum.splits prod.splits option.splits)

lemma updateQuestion_rejected_image:
  "upd_images updates = Some (Some u) \<Longrightarrow> u \<noteq> [] \<Longrightarrow> \<not> isValidImageUrl URL u \<Longrightarrow>
     updateQuestion URL update_question ident updates =
       ([], Inr \<lparr>success = False, data = None, message = None,
                 error = Some ''Invalid image URL format''\<rparr>)"
  by (simp add: updateQuestion_def try_catch_def error_message_def)

lemma updateQuestion_writes:
  "fst (updateQuestion URL update_question ident updates) =
     (if (case upd_images updates of
            Some (Some u) \<Rightarrow> u \<noteq> [] \<and> \<not> isValidImageUrl URL u
          | _ \<Rightarrow> False)
      then [] else [(ident, updates)])"
  by (simp add: updateQuestion_def Let_def split: sum.splits prod.splits option.splits)

lemma getQuestionsByLanguage_replies:
  "(\<forall>e. select_questions lang limit = Inl e \<longrightarrow>
      getQuestionsByLanguage select_questions lang limit = Inr (failed [] (error_message e))) \<and>
   (\<forall>d m. select_questions lang limit = Inr (d, Some m) \<longrightarrow>
      getQuestionsByLanguage select_questions lang limit =
        Inr (failed [] (''Failed to fetch questions: '' @ m))) \<and>
   (select_questions lang limit = Inr (None, None) \<longrightarrow>
      getQuestionsByLanguage select_questions lang limit =
        Inr (succeeded [] (''Found '' @ toString 0 @ '' questions''))) \<and>
   (\<forall>rows. select_questions lang limit = Inr (Some rows, None) \<longrightarrow>
      getQuestionsByLanguage select_questions lang limit =
        Inr (succeeded rows (''Found '' @ toString (length rows) @ '' questions'')))"
  by (simp add: getQuestionsByLanguage_def try_catch_def error_message_def failed_def
      succeeded_def)

lemma getImagesByQuestionId_replies:
  "(\<forall>e. select_images questionId = Inl e \<longrightarrow>
      getImagesByQuestionId select_images questionId = Inr (failed [] (error_message e))) \<and>
   (\<forall>d m. select_images questionId = Inr (d, Some m) \<longrightarrow>
      getImagesByQuestionId select_images questionId =
        Inr (failed [] (''Failed to fetch images: '' @ m))) \<and>
   (select_images questionId = Inr (None, None) \<longrightarrow>
      getImagesByQuestionId select_images questionId =
        Inr (succeeded [] (''Found '' @ toString 0 @ '' images''))) \<and>
   (\<forall>rows. select_images questionId = Inr (Some rows, None) \<longrightarrow>
      getImagesByQuestionId select_images questionId =
        Inr (succeeded rows (''Found '' @ toString (length rows) @ '' images'')))"
  by (simp add: getImagesByQuestionId_def try_catch_def error_message_def failed_def
      succeeded_def)

lemma insertImage_replies:
  "(\<not> truthy (question_id imageData) \<or> \<not> truthy (image_url imageData) \<longrightarrow>
      insertImage insert_image imageData =
        ([], Inr (failed None ''question_id and image_url are required fields''))) \<and>
   (truthy (question_id imageData) \<and> truthy (image_url imageData) \<longrightarrow>
      (\<exists>row. fst (insertImage insert_image imageData) = [row] \<and>
         (\<forall>e. insert_image row = Inl e \<longrightarrow>
            snd (insertImage insert_image imageData) = Inr (failed None (error_message e))) \<and>
         (\<forall>d m. insert_image row = Inr (d, Some m) \<longrightarrow>
            snd (insertImage insert_image imageData) =
              Inr (failed None (''Failed to insert image: '' @ m))) \<and>
         (\<forall>d. insert_image row = Inr (d, None) \<longrightarrow>
            snd (insertImage insert_image imageData) =
              Inr (succeeded d ''Image inserted successfully''))))"
proof (intro conjI impI)
  assume "\<not> truthy (question_id imageData) \<or> \<not> truthy (image_url imageData)"
  then show "insertImage insert_image imageData =
        ([], Inr (failed None ''question_id and image_url are required fields''))"
    by (simp add: insertImage_rejected failed_def)
next
  assume present: "truthy (question_id imageData) \<and> truthy (image_url imageData)"
  let ?row = "\<lparr>question_id = question_id imageData,
             image_url = image_url imageData,
             image_alt = Some (or_string (image_alt imageData) []),
             image_type = Some (or_string (image_type imageData) ''general''),
             display_order = Some (or_number (display_order imageData) 1)\<rparr>"
  from present have "fst (insertImage insert_image imageData) = [?row]"
    by (simp add: insertImage_writes)
  moreover from present
  have "\<forall>e. insert_image ?row = Inl e \<longrightarrow>
            snd (insertImage insert_image imageData) = Inr (failed None (error_message e))"
    and "\<forall>d m. insert_image ?row = Inr (d, Some m) \<longrightarrow>
            snd (insertImage insert_image imageData) =
              Inr (failed None (''Failed to insert image: '' @ m))"
    and "\<forall>d. insert_image ?row = Inr (d, None) \<longrightarrow>
            snd (insertImage insert_image imageData) =
              Inr (succeeded d ''Image inserted successfully'')"
    by (simp_all add: insertImage_def try_catch_def error_message_def failed_def succeeded_def
        Let_def)
  ultimately show "\<exists>row. fst (insertImage insert_image imageData) = [row] \<and>
         (\<forall>e. insert_image row = Inl e \<longrightarrow>
            snd (insertImage insert_image imageData) = Inr (failed None (error_message e))) \<and>
         (\<forall>d m. insert_image row = Inr (d, Some m) \<longrightarrow>
            snd (insertImage insert_image imageData) =
              Inr (failed None (''Failed to insert image: '' @ m))) \<and>
         (\<forall>d. insert_image row = Inr (d, None) \<longrightarrow>
            snd (insertImage insert_image imageData) =
              Inr (succeeded d ''Image inserted successfully''))"
    by (intro exI [of _ ?row]) blast
qed

lemma insertQuestion_replies:
  "(question_text questionData = [] \<or> options questionData = [] \<longrightarrow>
      insertQuestion URL insert_question questionData =
        ([], Inr (failed None ''question_text and options are required fields''))) \<and>
   (question_text questionData \<noteq> [] \<and> options questionData \<noteq> [] \<and>
    (\<exists>u. images questionData = Some u \<and> u \<noteq> [] \<and> \<not> isValidImageUrl URL u) \<longrightarrow>
      insertQuestion URL insert_question questionData =
        ([], Inr (failed None ''Invalid image URL format''))) \<and>
   (question_text questionData \<noteq> [] \<and> options questionData \<noteq> [] \<and>
    (\<forall>u. images questionData = Some u \<and> u \<noteq> [] \<longrightarrow> isValidImageUrl URL u) \<longrightarrow>
      (\<exists>row. fst (insertQuestion URL insert_question questionData) = [row] \<and>
         (\<forall>e. insert_question row = Inl e \<longrightarrow>
            snd (insertQuestion URL insert_question questionData) =
              Inr (failed None (error_message e))) \<and>
         (\<forall>d m. insert_question row = Inr (d, Some m) \<longrightarrow>
            snd (insertQuestion URL insert_question questionData) =
              Inr (failed None (''Failed to insert question: '' @ m))) \<and>
         (\<forall>d. insert_question row = Inr (d, None) \<longrightarrow>
            snd (insertQuestion URL insert_question questionData) =
              Inr (succeeded d ''Question inserted successfully''))))"
proof (intro conjI impI)
  assume "question_text questionData = [] \<or> options questionData = []"
  then show "insertQuestion URL insert_question questionData =
        ([], Inr (failed None ''question_text and options are required fields''))"
    by (simp add: insertQuestion_rejected_required failed_def)
next
  assume "question_text questionData \<noteq> [] \<and> options questionData \<noteq> [] \<and>
    (\<exists>u. images questionData = Some u \<and> u \<noteq> [] \<and> \<not> isValidImageUrl URL u)"
  then show "insertQuestion URL insert_question questionData =
        ([], Inr (failed None ''Invalid image URL format''))"
    by (auto simp: insertQuestion_rejected_image failed_def)
next
  assume "question_text questionData \<noteq> [] \<and> options questionData \<noteq> [] \<and>
    (\<forall>u. images questionData = Some u \<and> u \<noteq> [] \<longrightarrow> isValidImageUrl URL u)"
  then have passed: "question_text questionData \<noteq> []" "options questionData \<noteq> []"
      "\<not> (case images questionData of None \<Rightarrow> False
           | Some u \<Rightarrow> u \<noteq> [] \<and> \<not> isValidImageUrl URL u)"
    by (auto split: option.splits)
  let ?row = "\<lparr>question_text = question_text questionData,
             options = options questionData,
             correct_answer = correct_answer questionData,
             language = language questionData,
             category = or_string (Some (category questionData)) ''general'',
             difficulty = or_string (Some (difficulty questionData)) ''easy'',
             images = (if truthy (images questionData) then images questionData else None)\<rparr>"
  from passed have "fst (insertQuestion URL insert_question questionData) = [?row]"
    by (simp add: insertQuestion_writes)
  moreover from passed
  have "\<forall>e. insert_question ?row = Inl e \<longrightarrow>
            snd (insertQuestion URL insert_question questionData) =
              Inr (failed None (error_message e))"
    and "\<forall>d m. insert_question ?row = Inr (d, Some m) \<longrightarrow>
            snd (insertQuestion URL insert_question questionData) =
              Inr (failed None (''Failed to insert question: '' @ m))"
    and "\<forall>d. insert_question ?row = Inr (d, None) \<longrightarrow>
            snd (insertQuestion URL insert_question questionData) =
              Inr (succeeded d ''Question inserted successfully'')"
    by (simp_all add: insertQuestion_def try_catch_def error_message_def failed_def
        succeeded_def Let_def)
  ultimately show "\<exists>row. fst (insertQuestion URL insert_question questionData) = [row] \<and>
         (\<forall>e. insert_question row = Inl e \<longrightarrow>
            snd (insertQuestion URL insert_question questionData) =
              Inr (failed None (error_message e))) \<and>
         (\<forall>d m. insert_question row = Inr (d, Some m) \<longrightarrow>
            snd (insertQuestion URL insert_question questionData) =
              Inr (failed None (''Failed to insert question: '' @ m))) \<and>
         (\<forall>d. insert_question row = Inr (d, None) \<longrightarrow>
            snd (insertQuestion URL insert_question questionData) =
              Inr (succeeded d ''Question inserted successfully''))"
    by (intro exI [of _ ?row]) blast
qed

lemma updateQuestion_replies:
  "((\<exists>u. upd_images updates = Some (Some u) \<and> u \<noteq> [] \<and> \<not> isValidImageUrl URL u) \<longrightarrow>
      updateQuestion URL update_question ident updates =
        ([], Inr (failed None ''Invalid image URL format''))) \<and>
   ((\<forall>u. upd_images updates = Some (Some u) \<and> u \<noteq> [] \<longrightarrow> isValidImageUrl URL u) \<longrightarrow>
      fst (updateQuestion URL update_question ident updates) = [(ident, updates)] \<and>
      (\<forall>e. update_question ident updates = Inl e \<longrightarrow>
         snd (updateQuestion URL update_question ident updates) =
           Inr (failed None (error_message e))) \<and>
      (\<forall>d m. update_question ident updates = Inr (d, Some m) \<longrightarrow>
         snd (updateQuestion URL update_question ident updates) =
           Inr (failed None (''Failed to update question: '' @ m))) \<and>
      (\<forall>d. update_question ident updates = Inr (d, None) \<longrightarrow>
         snd (updateQuestion URL update_question ident updates) =
           Inr (succeeded d ''Question updated successfully'')))"
proof (rule conjI)
  show "(\<exists>u. upd_images updates = Some (Some u) \<and> u \<noteq> [] \<and> \<not> isValidImageUrl URL u) \<longrightarrow>
      updateQuestion URL update_question ident updates =
        ([], Inr (failed None ''Invalid image URL format''))"
    by (auto simp: updateQuestion_rejected_image failed_def)
next
  show "(\<forall>u. upd_images updates = Some (Some u) \<and> u \<noteq> [] \<longrightarrow> isValidImageUrl URL u) \<longrightarrow>
      fst (updateQuestion URL update_question ident updates) = [(ident, updates)] \<and>
      (\<forall>e. update_question ident updates = Inl e \<longrightarrow>
         snd (updateQuestion URL update_question ident updates) =
           Inr (failed None (error_message e))) \<and>
      (\<forall>d m. update_question ident updates = Inr (d, Some m) \<longrightarrow>
         snd (updateQuestion URL update_question ident updates) =
           Inr (failed None (''Failed to update question: '' @ m))) \<and>
      (\<forall>d. update_question ident updates = Inr (d, None) \<longrightarrow>
         snd (updateQuestion URL update_question ident updates) =
           Inr (succeeded d ''Question updated successfully''))"
  proof
    assume "\<forall>u. upd_images updates = Some (Some u) \<and> u \<noteq> [] \<longrightarrow> isValidImageUrl URL u"
    then have passed: "\<not> (case upd_images updates of
            Some (Some u) \<Rightarrow> u \<noteq> [] \<and> \<not> isValidImageUrl URL u
          | _ \<Rightarrow> False)"
      by (auto split: option.splits)
    then show "fst (updateQuestion URL update_question ident updates) = [(ident, updates)] \<and>
      (\<forall>e. update_question ident updates = Inl e \<longrightarrow>
         snd (updateQuestion URL update_question ident updates) =
           Inr (failed None (error_message e))) \<and>
      (\<forall>d m. update_question ident updates = Inr (d, Some m) \<longrightarrow>
         snd (updateQuestion URL update_question ident updates) =
           Inr (failed None (''Failed to update question: '' @ m))) \<and>
      (\<forall>d. update_question ident updates = Inr (d, None) \<longrightarrow>
         snd (updateQuestion URL update_question ident updates) =
           Inr (succeeded d ''Question updated successfully''))"
      by (simp add: updateQuestion_writes)
        (simp add: updateQuestion_def try_catch_def error_message_def failed_def succeeded_def
          Let_def)
  qed
qed

text \<open>
  C4: each of the five operations, for every argument and every reply of the store,
  settles to an envelope of one of the two shapes and never to a thrown value, and which
  envelope follows the store. When the store rejects, the operation returns the failure
  envelope with the message of the thrown error; when the store replies with an error,
  the failure envelope with \<open>Failed to ...\<close> and the error's message; when it replies
  without an error, the success envelope with the data of the reply (the empty list for a
  read without data). A write that fails validation returns the failure envelope before
  any request; otherwise the request it issued is the one the store replied to. The data
  of a failure envelope is \<open>null\<close>, or the empty list for the two reads.
\<close>

theorem data_access_uniform_envelope:
  "(\<exists>env. getQuestionsByLanguage select_questions lang limit = Inr env \<and> uniform_envelope [] env) \<and>
  ((\<forall>e. select_questions lang limit = Inl e \<longrightarrow>
      getQuestionsByLanguage select_questions lang limit = Inr (failed [] (error_message e))) \<and>
   (\<forall>d m. select_questions lang limit = Inr (d, Some m) \<longrightarrow>
      getQuestionsByLanguage select_questions lang limit =
        Inr (failed [] (''Failed to fetch questions: '' @ m))) \<and>
   (select_questions lang limit = Inr (None, None) \<longrightarrow>
      getQuestionsByLanguage select_questions lang limit =
        Inr (succeeded [] (''Found '' @ toString 0 @ '' questions''))) \<and>
   (\<forall>rows. select_questions lang limit = Inr (Some rows, None) \<longrightarrow>
      getQuestionsByLanguage select_questions lang limit =
        Inr (succeeded rows (''Found '' @ toString (length rows) @ '' questions'')))) \<and>
  (\<exists>env. snd (insertQuestion URL insert_question questionData) = Inr env \<and> uniform_envelope None env) \<and>
  ((question_text questionData = [] \<or> options questionData = [] \<longrightarrow>
      insertQuestion URL insert_question questionData =
        ([], Inr (failed None ''question_text and options are required fields''))) \<and>
   (question_text questionData \<noteq> [] \<and> options questionData \<noteq> [] \<and>
    (\<exists>u. images questionData = Some u \<and> u \<noteq> [] \<and> \<not> isValidImageUrl URL u) \<longrightarrow>
      insertQuestion URL insert_question questionData =
        ([], Inr (failed None ''Invalid image URL format''))) \<and>
   (question_text questionData \<noteq> [] \<and> options questionData \<noteq> [] \<and>
    (\<forall>u. images questionData = Some u \<and> u \<noteq> [] \<longrightarrow> isValidImageUrl URL u) \<longrightarrow>
      (\<exists>row. fst (insertQuestion URL insert_question questionData) = [row] \<and>
         (\<forall>e. insert_question row = Inl e \<longrightarrow>
            snd (insertQuestion URL insert_question questionData) =
              Inr (failed None (error_message e))) \<and>
         (\<forall>d m. insert_question row = Inr (d, Some m) \<longrightarrow>
            snd (insertQuestion URL insert_question questionData) =
              Inr (failed None (''Failed to insert question: '' @ m))) \<and>
         (\<forall>d. insert_question row = Inr (d, None) \<longrightarrow>
            snd (insertQuestion URL insert_question questionData) =
              Inr (succeeded d ''Question inserted successfully''))))) \<and>
  (\<exists>env. snd (updateQuestion URL update_question ident updates) = Inr env \<and> uniform_envelope None env) \<and>
  (((\<exists>u. upd_images updates = Some (Some u) \<and> u \<noteq> [] \<and> \<not> isValidImageUrl URL u) \<longrightarrow>
      updateQuestion URL update_question ident updates =
        ([], Inr (failed None ''Invalid image URL format''))) \<and>
   ((\<forall>u. upd_images updates = Some (Some u) \<and> u \<noteq> [] \<longrightarrow> isValidImageUrl URL u) \<longrightarrow>
      fst (updateQuestion URL update_question ident updates) = [(ident, updates)] \<and>
      (\<forall>e. update_question ident updates = Inl e \<longrightarrow>
         snd (updateQuestion URL update_question ident updates) =
           Inr (failed None (error_message e))) \<and>
      (\<forall>d m. update_question ident updates = Inr (d, Some m) \<longrightarrow>
         snd (updateQuestion URL update_question ident updates) =
           Inr (failed None (''Failed to update question: '' @ m))) \<and>
      (\<forall>d. update_question ident updates = Inr (d, None) \<longrightarrow>
         snd (updateQuestion URL update_question ident updates) =
           Inr (succeeded d ''Question updated successfully'')))) \<and>
  (\<exists>env. snd (insertImage insert_image imageData) = Inr env \<and> uniform_envelope None env) \<and>
  ((\<not> truthy (question_id imageData) \<or> \<not> truthy (image_url imageData) \<longrightarrow>
      insertImage insert_image imageData =
        ([], Inr (failed None ''question_id and image_url are required fields''))) \<and>
   (truthy (question_id imageData) \<and> truthy (image_url imageData) \<longrightarrow>
      (\<exists>row. fst (insertImage insert_image imageData) = [row] \<and>
         (\<forall>e. insert_image row = Inl e \<longrightarrow>
            snd (insertImage insert_image imageData) = Inr (failed None (error_message e))) \<and>
         (\<forall>d m. insert_image row = Inr (d, Some m) \<longrightarrow>
            snd (insertImage insert_image imageData) =
              Inr (failed None (''Failed to insert image: '' @ m))) \<and>
         (\<forall>d. insert_image row = Inr (d, None) \<longrightarrow>
            snd (insertImage insert_image imageData) =
              Inr (succeeded d ''Image inserted successfully''))))) \<and>
  (\<exists>env. getImagesByQuestionId select_images questionId = Inr env \<and> uniform_envelope [] env) \<and>
  ((\<forall>e. select_images questionId = Inl e \<longrightarrow>
      getImagesByQuestionId select_images questionId = Inr (failed [] (error_message e))) \<and>
   (\<forall>d m. select_images questionId = Inr (d, Some m) \<longrightarrow>
      getImagesByQuestionId select_images questionId =
        Inr (failed [] (''Failed to fetch images: '' @ m))) \<and>
   (select_images questionId = Inr (None, None) \<longrightarrow>
      getImagesByQuestionId select_images questionId =
        Inr (succeeded [] (''Found '' @ toString 0 @ '' images''))) \<and>
   (\<forall>rows. select_images questionId = Inr (Some rows, None) \<longrightarrow>
      getImagesByQuestionId select_images questionId =
        Inr (succeeded rows (''Found '' @ toString (length rows) @ '' images''))))"
  by (rule conjI, rule getQuestionsByLanguage_envelope,
      rule conjI, rule getQuestionsByLanguage_replies,
      rule conjI, rule insertQuestion_envelope,
      rule conjI, rule insertQuestion_replies,
      rule conjI, rule updateQuestion_envelope,
      rule conjI, rule updateQuestion_replies,
      rule conjI, rule insertImage_envelope,
      rule conjI, rule insertImage_replies,
      rule conjI, rule getImagesByQuestionId_envelope,
      rule getImagesByQuestionId_replies)

theorem data_access_uniform_envelope_witness:
  "getQuestionsByLanguage (\<lambda>lang limit. Inl NonError) ''hi'' 10 =
     Inr (failed ([] :: Question list) ''Unknown error occurred'') \<and>
   getQuestionsByLanguage (\<lambda>lang limit. Inr (None, Some ''timeout'')) ''hi'' 10 =
     Inr (failed ([] :: Question list) ''Failed to fetch questions: timeout'') \<and>
   getQuestionsByLanguage (\<lambda>lang limit. Inr (Some [], None)) ''hi'' 10 =
     Inr (succeeded ([] :: Question list) ''Found 0 questions'') \<and>
   uniform_envelope [] (failed ([] :: Question list) ''Unknown error occurred'')"
proof -
  let ?rejects = "\<lambda>(lang :: string) (limit :: nat).
    Inl NonError :: thrown + (Question list option) response"
  let ?errors = "\<lambda>(lang :: string) (limit :: nat).
    Inr (None, Some ''timeout'') :: thrown + (Question list option) response"
  let ?empty = "\<lambda>(lang :: string) (limit :: nat).
    Inr (Some [], None) :: thrown + (Question list option) response"
  note rejects = data_access_uniform_envelope
    [where select_questions = ?rejects and lang = "''hi''" and limit = 10]
  from rejects [THEN conjunct2, THEN conjunct1, THEN conjunct1]
  have rejected: "getQuestionsByLanguage ?rejects ''hi'' 10 =
      Inr (failed [] (error_message NonError))"
    by simp
  from rejects [THEN conjunct1]
  have uniform: "\<exists>env. getQuestionsByLanguage ?rejects ''hi'' 10 = Inr env \<and>
      uniform_envelope [] env" .
  from data_access_uniform_envelope
    [where select_questions = ?errors and lang = "''hi''" and limit = 10,
      THEN conjunct2, THEN conjunct1, THEN conjunct2, THEN conjunct1]
  have errored: "getQuestionsByLanguage ?errors ''hi'' 10 =
      Inr (failed [] (''Failed to fetch questions: '' @ ''timeout''))"
    by simp
  from data_access_uniform_envelope
    [where select_questions = ?empty and lang = "''hi''" and limit = 10,
      THEN conjunct2, THEN conjunct1, THEN conjunct2, THEN conjunct2, THEN conjunct2]
  have found: "getQuestionsByLanguage ?empty ''hi'' 10 =
      Inr (succeeded [] (''Found '' @ toString (length ([] :: Question list)) @ '' questions''))"
    by simp
  from rejected uniform errored found show ?thesis
    by (simp add: error_message_def toString.simps)
qed

text \<open>
  C6: when \<open>question_id\<close> or \<open>image_url\<close> is missing or empty, \<open>insertImage\<close> hands no row
  to the store and returns the failure envelope with \<open>data\<close> null and the error
  \<open>question_id and image_url are required fields\<close>. When both are present it hands the
  store exactly one row, with the given \<open>question_id\<close> and \<open>image_url\<close>, with \<open>image_alt\<close>
  the empty string, \<open>image_type\<close> \<open>general\<close> and \<open>display_order\<close> 1 where the field is
  absent, and with the given value where it is present (and not empty, not 0); and when
  the store replies without an error it returns the success envelope with the row of the
  reply.
\<close>

theorem insertImage_required_and_defaults:
  "(question_id imageData = None \<or> question_id imageData = Some [] \<or>
    image_url imageData = None \<or> image_url imageData = Some [] \<longrightarrow>
      insertImage insert_image imageData =
        ([], Inr \<lparr>success = False, data = None, message = None,
                  error = Some ''question_id and image_url are required fields''\<rparr>)) \<and>
   (\<forall>q u. question_id imageData = Some q \<and> q \<noteq> [] \<and> image_url imageData = Some u \<and> u \<noteq> [] \<longrightarrow>
      (\<exists>row. fst (insertImage insert_image imageData) = [row] \<and>
         question_id row = Some q \<and> image_url row = Some u \<and>
         (image_alt imageData = None \<longrightarrow> image_alt row = Some []) \<and>
         (image_type imageData = None \<longrightarrow> image_type row = Some ''general'') \<and>
         (display_order imageData = None \<longrightarrow> display_order row = Some 1) \<and>
         (\<forall>a. image_alt imageData = Some a \<longrightarrow> image_alt row = Some a) \<and>
         (\<forall>t. image_type imageData = Some t \<and> t \<noteq> [] \<longrightarrow> image_type row = Some t) \<and>
         (\<forall>n. display_order imageData = Some n \<and> n \<noteq> 0 \<longrightarrow> display_order row = Some n) \<and>
         (\<forall>d. insert_image row = Inr (d, None) \<longrightarrow>
              snd (insertImage insert_image imageData) =
                Inr \<lparr>success = True, data = d, message = Some ''Image inserted successfully'',
                     error = None\<rparr>)))"
proof (intro conjI impI allI)
  assume "question_id imageData = None \<or> question_id imageData = Some [] \<or>
          image_url imageData = None \<or> image_url imageData = Some []"
  then have "\<not> truthy (question_id imageData) \<or> \<not> truthy (image_url imageData)"
    by (auto simp: truthy_def)
  then show "insertImage insert_image imageData =
        ([], Inr \<lparr>success = False, data = None, message = None,
                  error = Some ''question_id and image_url are required fields''\<rparr>)"
    by (rule insertImage_rejected)
next
  fix q u
  assume given: "question_id imageData = Some q \<and> q \<noteq> [] \<and> image_url imageData = Some u \<and> u \<noteq> []"
  let ?row = "\<lparr>question_id = question_id imageData,
             image_url = image_url imageData,
             image_alt = Some (or_string (image_alt imageData) []),
             image_type = Some (or_string (image_type imageData) ''general''),
             display_order = Some (or_number (display_order imageData) 1)\<rparr>"
  from given have present: "truthy (question_id imageData)" "truthy (image_url imageData)"
    by (simp_all add: truthy_def)
  then have "fst (insertImage insert_image imageData) = [?row]"
    by (simp add: insertImage_writes)
  moreover have "question_id ?row = Some q \<and> image_url ?row = Some u"
    using given by simp
  moreover have "(image_alt imageData = None \<longrightarrow> image_alt ?row = Some []) \<and>
         (image_type imageData = None \<longrightarrow> image_type ?row = Some ''general'') \<and>
         (display_order imageData = None \<longrightarrow> display_order ?row = Some 1)"
    by (simp add: or_string_def or_number_def)
  moreover have "(\<forall>a. image_alt imageData = Some a \<longrightarrow> image_alt ?row = Some a) \<and>
         (\<forall>t. image_type imageData = Some t \<and> t \<noteq> [] \<longrightarrow> image_type ?row = Some t) \<and>
         (\<forall>n. display_order imageData = Some n \<and> n \<noteq> 0 \<longrightarrow> display_order ?row = Some n)"
    by (simp add: or_string_def or_number_def)
  moreover have "\<forall>d. insert_image ?row = Inr (d, None) \<longrightarrow>
              snd (insertImage insert_image imageData) =
                Inr \<lparr>success = True, data = d, message = Some ''Image inserted successfully'',
                     error = None\<rparr>"
    using insertImage_returns_row [OF present] by blast
  ultimately show "\<exists>row. fst (insertImage insert_image imageData) = [row] \<and>
         question_id row = Some q \<and> image_url row = Some u \<and>
         (image_alt imageData = None \<longrightarrow> image_alt row = Some []) \<and>
         (image_type imageData = None \<longrightarrow> image_type row = Some ''general'') \<and>
         (display_order imageData = None \<longrightarrow> display_order row = Some 1) \<and>
         (\<forall>a. image_alt imageData = Some a \<longrightarrow> image_alt row = Some a) \<and>
         (\<forall>t. image_type imageData = Some t \<and> t \<noteq> [] \<longrightarrow> image_type row = Some t) \<and>
         (\<forall>n. display_order imageData = Some n \<and> n \<noteq> 0 \<longrightarrow> display_order row = Some n) \<and>
         (\<forall>d. insert_image row = Inr (d, None) \<longrightarrow>
              snd (insertImage insert_image imageData) =
                Inr \<lparr>success = True, data = d, message = Some ''Image inserted successfully'',
                     error = None\<rparr>)"
    by (intro exI [of _ ?row]) blast
qed

theorem insertImage_required_and_defaults_witness:
  "insertImage store_accepts
     \<lparr>question_id = Some ''q1'', image_url = Some [], image_alt = None, image_type = None,
      display_order = None\<rparr> =
     ([], Inr \<lparr>success = False, data = None, message = None,
               error = Some ''question_id and image_url are required fields''\<rparr>) \<and>
   insertImage store_accepts
     \<lparr>question_id = Some ''q1'', image_url = Some ''https://i.imgur.com/a.png'',
      image_alt = None, image_type = None, display_order = None\<rparr> =
     ([\<lparr>question_id = Some ''q1'', image_url = Some ''https://i.imgur.com/a.png'',
        image_alt = Some [], image_type = Some ''general'', display_order = Some 1\<rparr>],
      Inr \<lparr>success = True,
           data = Some \<lparr>question_id = Some ''q1'', image_url = Some ''https://i.imgur.com/a.png'',
                         image_alt = Some [], image_type = Some ''general'',
                         display_order = Some 1\<rparr>,
           message = Some ''Image inserted successfully'', error = None\<rparr>)"
proof -
  let ?bad = "\<lparr>question_id = Some ''q1'', image_url = Some [], image_alt = None,
               image_type = None, display_order = None\<rparr>"
  let ?good = "\<lparr>question_id = Some ''q1'', image_url = Some ''https://i.imgur.com/a.png'',
                image_alt = None, image_type = None, display_order = None\<rparr>"
  let ?row = "\<lparr>question_id = Some ''q1'', image_url = Some ''https://i.imgur.com/a.png'',
        image_alt = Some [], image_type = Some ''general'', display_order = Some 1\<rparr>"
  have rejected: "insertImage store_accepts ?bad =
     ([], Inr \<lparr>success = False, data = None, message = None,
               error = Some ''question_id and image_url are required fields''\<rparr>)"
    using insertImage_required_and_defaults [of ?bad store_accepts] by simp
  from insertImage_required_and_defaults [of ?good store_accepts]
  obtain row where row: "fst (insertImage store_accepts ?good) = [row]"
      "question_id row = Some ''q1''" "image_url row = Some ''https://i.imgur.com/a.png''"
      "image_alt row = Some []" "image_type row = Some ''general''" "display_order row = Some 1"
    and returned: "\<forall>d. store_accepts row = Inr (d, None) \<longrightarrow>
              snd (insertImage store_accepts ?good) =
                Inr \<lparr>success = True, data = d, message = Some ''Image inserted successfully'',
                     error = None\<rparr>"
    by auto
  from row have "row = ?row"
    by (cases row) simp
  with row returned have "insertImage store_accepts ?good =
     ([?row], Inr \<lparr>success = True, data = Some ?row,
           message = Some ''Image inserted successfully'', error = None\<rparr>)"
    by (simp add: store_accepts_def prod_eq_iff)
  with rejected show ?thesis by simp
qed

text \<open>
  C10: \<open>insertImage\<close> replaces every falsy value of a defaultable field, not only an
  absent one: with \<open>display_order\<close> 0 the row handed to the store has \<open>display_order\<close> 1,
  and with \<open>image_type\<close> absent or empty it has \<open>image_type\<close> \<open>general\<close>. No row that
  \<open>insertImage\<close> hands to the store has \<open>display_order\<close> 0 or no \<open>display_order\<close>.
\<close>

theorem insertImage_falsy_defaults:
  "(truthy (question_id imageData) \<and> truthy (image_url imageData) \<longrightarrow>
      (\<exists>row. fst (insertImage insert_image imageData) = [row] \<and>
         (display_order imageData = Some 0 \<longrightarrow> display_order row = Some 1) \<and>
         (image_type imageData = None \<or> image_type imageData = Some [] \<longrightarrow>
            image_type row = Some ''general''))) \<and>
   list_all (\<lambda>row. display_order row \<noteq> Some 0 \<and> display_order row \<noteq> None)
     (fst (insertImage insert_image imageData))"
  by (auto simp: insertImage_writes or_string_def or_number_def split: option.splits)

theorem insertImage_falsy_defaults_witness:
  "(\<exists>row. fst (insertImage store_accepts
              \<lparr>question_id = Some ''q1'', image_url = Some ''https://i.imgur.com/a.png'',
               image_alt = Some ''a photo'', image_type = Some [], display_order = Some 0\<rparr>) =
            [row] \<and>
          display_order row = Some 1 \<and> image_type row = Some ''general'') \<and>
   list_all (\<lambda>row. display_order row \<noteq> Some 0 \<and> display_order row \<noteq> None)
     (fst (insertImage store_accepts
        \<lparr>question_id = Some ''q1'', image_url = Some ''https://i.imgur.com/a.png'',
         image_alt = Some ''a photo'', image_type = Some [], display_order = Some 0\<rparr>))"
  using insertImage_falsy_defaults [of
      "\<lparr>question_id = Some ''q1'', image_url = Some ''https://i.imgur.com/a.png'',
        image_alt = Some ''a photo'', image_type = Some [], display_order = Some 0\<rparr>"
      store_accepts]
  by (simp add: truthy_def)

text \<open>
  C5: \<open>insertQuestion\<close> returns the failure envelope with the error
  \<open>question_text and options are required fields\<close>, without a write, when the question
  text or the option list is empty, and with the error \<open>Invalid image URL format\<close>,
  without a write, when an image is supplied, that is \<open>images\<close> is a non-empty string, and
  it fails \<open>isValidImageUrl\<close>; an empty \<open>images\<close> string counts as no image and is written
  as null. \<open>updateQuestion\<close> rejects in the same way, without a write, when the update has
  a non-empty \<open>images\<close> value that fails \<open>isValidImageUrl\<close>; when \<open>images\<close> is absent from
  the update, null or empty, the check is not applied and the update is issued.
\<close>

theorem question_writes_validated:
  "(question_text questionData = [] \<or> options questionData = [] \<longrightarrow>
      insertQuestion URL insert_question questionData =
        ([], Inr \<lparr>success = False, data = None, message = None,
                  error = Some ''question_text and options are required fields''\<rparr>)) \<and>
   (\<forall>u. question_text questionData \<noteq> [] \<and> options questionData \<noteq> [] \<and>
        images questionData = Some u \<and> u \<noteq> [] \<and> \<not> isValidImageUrl URL u \<longrightarrow>
      insertQuestion URL insert_question questionData =
        ([], Inr \<lparr>success = False, data = None, message = None,
                  error = Some ''Invalid image URL format''\<rparr>)) \<and>
   (question_text questionData \<noteq> [] \<and> options questionData \<noteq> [] \<and>
    images questionData = Some [] \<longrightarrow>
      (\<exists>row. fst (insertQuestion URL insert_question questionData) = [row] \<and> images row = None)) \<and>
   (\<forall>u. upd_images updates = Some (Some u) \<and> u \<noteq> [] \<and> \<not> isValidImageUrl URL u \<longrightarrow>
      updateQuestion URL update_question ident updates =
        ([], Inr \<lparr>success = False, data = None, message = None,
                  error = Some ''Invalid image URL format''\<rparr>)) \<and>
   (upd_images updates = None \<or> upd_images updates = Some None \<or>
    upd_images updates = Some (Some []) \<longrightarrow>
      fst (updateQuestion URL update_question ident updates) = [(ident, updates)])"
proof (intro conjI allI impI)
  assume "question_text questionData = [] \<or> options questionData = []"
  then show "insertQuestion URL insert_question questionData =
        ([], Inr \<lparr>success = False, data = None, message = None,
                  error = Some ''question_text and options are required fields''\<rparr>)"
    by (rule insertQuestion_rejected_required)
next
  fix u
  assume "question_text questionData \<noteq> [] \<and> options questionData \<noteq> [] \<and>
        images questionData = Some u \<and> u \<noteq> [] \<and> \<not> isValidImageUrl URL u"
  then show "insertQuestion URL insert_question questionData =
        ([], Inr \<lparr>success = False, data = None, message = None,
                  error = Some ''Invalid image URL format''\<rparr>)"
    by (simp add: insertQuestion_rejected_image)
next
  assume "question_text questionData \<noteq> [] \<and> options questionData \<noteq> [] \<and>
    images questionData = Some []"
  then show "\<exists>row. fst (insertQuestion URL insert_question questionData) = [row] \<and> images row = None"
    by (simp add: insertQuestion_writes truthy_def)
next
  fix u
  assume "upd_images updates = Some (Some u) \<and> u \<noteq> [] \<and> \<not> isValidImageUrl URL u"
  then show "updateQuestion URL update_question ident updates =
        ([], Inr \<lparr>success = False, data = None, message = None,
                  error = Some ''Invalid image URL format''\<rparr>)"
    by (simp add: updateQuestion_rejected_image)
next
  assume "upd_images updates = None \<or> upd_images updates = Some None \<or>
    upd_images updates = Some (Some [])"
  then show "fst (updateQuestion URL update_question ident updates) = [(ident, updates)]"
    by (auto simp: updateQuestion_writes)
qed

theorem question_writes_validated_witness:
  "insertQuestion parse_URL store_accepts
     \<lparr>question_text = [], options = [''a'', ''b''], correct_answer = 0, language = ''en'',
      category = ''general'', difficulty = ''easy'', images = None\<rparr> =
     ([], Inr \<lparr>success = False, data = None, message = None,
               error = Some ''question_text and options are required fields''\<rparr>) \<and>
   insertQuestion parse_URL store_accepts
     \<lparr>question_text = ''Q'', options = [''a'', ''b''], correct_answer = 0, language = ''en'',
      category = ''general'', difficulty = ''easy'', images = Some ''not a url''\<rparr> =
     ([], Inr \<lparr>success = False, data = None, message = None,
               error = Some ''Invalid image URL format''\<rparr>) \<and>
   updateQuestion parse_URL (\<lambda>ident. store_accepts) ''7''
     \<lparr>upd_question_text = None, upd_options = None, upd_correct_answer = None,
      upd_language = None, upd_category = None, upd_difficulty = None,
      upd_images = Some (Some ''not a url'')\<rparr> =
     ([], Inr \<lparr>success = False, data = None, message = None,
               error = Some ''Invalid image URL format''\<rparr>) \<and>
   fst (updateQuestion parse_URL (\<lambda>ident. store_accepts) ''7''
     \<lparr>upd_question_text = Some ''Q'', upd_options = None, upd_correct_answer = None,
      upd_language = None, upd_category = None, upd_difficulty = None,
      upd_images = None\<rparr>) =
     [(''7'', \<lparr>upd_question_text = Some ''Q'', upd_options = None, upd_correct_answer = None,
      upd_language = None, upd_category = None, upd_difficulty = None,
      upd_images = None\<rparr>)]"
proof -
  have invalid: "\<not> isValidImageUrl parse_URL ''not a url''"
    by (simp add: isValidImageUrl_def parse_URL_not_a_url)
  show ?thesis
    using invalid
      question_writes_validated [of
        "\<lparr>question_text = [], options = [''a'', ''b''], correct_answer = 0, language = ''en'',
          category = ''general'', difficulty = ''easy'', images = None\<rparr>"
        parse_URL store_accepts
        "\<lparr>upd_question_text = None, upd_options = None, upd_correct_answer = None,
          upd_language = None, upd_category = None, upd_difficulty = None,
          upd_images = Some (Some ''not a url'')\<rparr>" "\<lambda>ident. store_accepts" "''7''"]
      question_writes_validated [of
        "\<lparr>question_text = ''Q'', options = [''a'', ''b''], correct_answer = 0, language = ''en'',
          category = ''general'', difficulty = ''easy'', images = Some ''not a url''\<rparr>"
        parse_URL store_accepts
        "\<lparr>upd_question_text = Some ''Q'', upd_options = None, upd_correct_answer = None,
          upd_language = None, upd_category = None, upd_difficulty = None,
          upd_images = None\<rparr>" "\<lambda>ident. store_accepts" "''7''"]
    by simp
qed


section \<open>Properties of the test-taking flow\<close>

lemma sampleQuestions_length: "length (sampleQuestions lang now) = 3"
  by (simp add: sampleQuestions_def)

lemma sampleQuestions_language: "map language (sampleQuestions lang now) = [lang, lang, lang]"
  by (simp add: sampleQuestions_def)

lemma sampleQuestions_category:
  "map category (sampleQuestions lang now) = [''general'', ''science'', ''mathematics'']"
  by (simp add: sampleQuestions_def)

lemma sampleQuestions_correct_answer:
  "map correct_answer (sampleQuestions lang now) = [1, 1, 2]"
  by (simp add: sampleQuestions_def)

lemma loadSampleQuestions_fields:
  "questions (loadSampleQuestions lang now s) = sampleQuestions lang now"
  "answers (loadSampleQuestions lang now s) = [Null, Null, Null]"
  "currentQuestionIndex (loadSampleQuestions lang now s) = currentQuestionIndex s"
  by (simp_all add: loadSampleQuestions_def sampleQuestions_length numeral_3_eq_3)

lemma getQuestionsByLanguage_cases:
  "getQuestionsByLanguage select_questions lang limit =
     (case select_questions lang limit of
        Inl e \<Rightarrow> Inr \<lparr>success = False, data = [], message = None, error = Some (error_message e)\<rparr>
      | Inr (d, Some m) \<Rightarrow>
          Inr \<lparr>success = False, data = [], message = None,
               error = Some (''Failed to fetch questions: '' @ m)\<rparr>
      | Inr (None, None) \<Rightarrow>
          Inr \<lparr>success = True, data = [], message = Some (''Found '' @ toString 0 @ '' questions''),
               error = None\<rparr>
      | Inr (Some rows, None) \<Rightarrow>
          Inr \<lparr>success = True, data = rows,
               message = Some (''Found '' @ toString (length rows) @ '' questions''),
               error = None\<rparr>)"
  by (simp add: getQuestionsByLanguage_def try_catch_def error_message_def
      split: sum.splits option.splits prod.splits)

lemma loadQuestions_uses_samples:
  assumes "(\<exists>e. select_questions lang 10 = Inl e) \<or>
           (\<exists>d m. select_questions lang 10 = Inr (d, Some m)) \<or>
           select_questions lang 10 = Inr (None, None) \<or>
           select_questions lang 10 = Inr (Some [], None)"
  shows "loadQuestions select_questions lang now s =
           (loadSampleQuestions lang now s)\<lparr>loading := False\<rparr>"
  using assms by (auto simp: loadQuestions_def getQuestionsByLanguage_cases split: option.splits)

lemma loadQuestions_rows_state:
  assumes "select_questions lang 10 = Inr (Some rows, None)" and "rows \<noteq> []"
  shows "questions (loadQuestions select_questions lang now s) = rows"
    and "answers (loadQuestions select_questions lang now s) = replicate (length rows) Null"
  using assms by (simp_all add: loadQuestions_def getQuestionsByLanguage_cases)

text \<open>
  C8: when the fetch for the active language rejects, reports an error or returns no
  rows, \<open>loadQuestions\<close> leaves the built-in sample set as the question list, with three
  unanswered positions and the loading flag cleared. The sample set has exactly three
  questions, each with the active language as its language, of the categories general,
  science and mathematics. When the fetch returns rows, they are the question list.
\<close>

theorem loadQuestions_fallback:
  "((\<exists>e. select_questions lang 10 = Inl e) \<or>
    (\<exists>d m. select_questions lang 10 = Inr (d, Some m)) \<or>
    select_questions lang 10 = Inr (None, None) \<or>
    select_questions lang 10 = Inr (Some [], None) \<longrightarrow>
      questions (loadQuestions select_questions lang now s) = sampleQuestions lang now \<and>
      answers (loadQuestions select_questions lang now s) = [Null, Null, Null] \<and>
      \<not> loading (loadQuestions select_questions lang now s)) \<and>
   length (sampleQuestions lang now) = 3 \<and>
   map language (sampleQuestions lang now) = [lang, lang, lang] \<and>
   map category (sampleQuestions lang now) = [''general'', ''science'', ''mathematics''] \<and>
   (\<forall>rows. select_questions lang 10 = Inr (Some rows, None) \<and> rows \<noteq> [] \<longrightarrow>
      questions (loadQuestions select_questions lang now s) = rows)"
  by (simp add: loadQuestions_uses_samples loadSampleQuestions_fields sampleQuestions_length
      sampleQuestions_language sampleQuestions_category loadQuestions_rows_state)

theorem loadQuestions_fallback_witness:
  "questions (loadQuestions (\<lambda>lang limit. Inr (Some [], None)) ''hi''
       \<lparr>Date_now = 1753600000000, toISOString = ''2025-07-27T07:06:40.000Z''\<rparr> initial_state) =
     sampleQuestions ''hi'' \<lparr>Date_now = 1753600000000, toISOString = ''2025-07-27T07:06:40.000Z''\<rparr> \<and>
   length (sampleQuestions ''hi''
       \<lparr>Date_now = 1753600000000, toISOString = ''2025-07-27T07:06:40.000Z''\<rparr>) = 3 \<and>
   map language (sampleQuestions ''hi''
       \<lparr>Date_now = 1753600000000, toISOString = ''2025-07-27T07:06:40.000Z''\<rparr>) =
     [''hi'', ''hi'', ''hi'']"
  using loadQuestions_fallback [of "\<lambda>lang limit. Inr (Some [], None)" "''hi''"
      "\<lparr>Date_now = 1753600000000, toISOString = ''2025-07-27T07:06:40.000Z''\<rparr>" initial_state]
  by simp

lemma consistent_initial: "consistent initial_state"
  by (simp add: consistent_def initial_state_def)

lemma consistent_loadSampleQuestions: "consistent (loadSampleQuestions lang now s)"
  by (simp add: consistent_def loadSampleQuestions_def)

lemma consistent_loadQuestions: "consistent (loadQuestions select_questions lang now s)"
proof -
  have "consistent (loadSampleQuestions lang now s\<lparr>loading := False\<rparr>)"
    using consistent_loadSampleQuestions [of lang now s]
    by (simp add: consistent_def split: option.splits)
  then show ?thesis
    by (auto simp: loadQuestions_def consistent_def split: sum.splits option.splits)
qed

lemma consistent_handleAnswerSelect:
  "consistent s \<Longrightarrow> currentQuestionIndex s < length (questions s) \<Longrightarrow>
   consistent (handleAnswerSelect optionIndex s)"
  by (simp add: consistent_def handleAnswerSelect_def array_set_def split: option.splits)

lemma consistent_handleNext: "consistent s \<Longrightarrow> consistent (handleNext s)"
  by (simp add: consistent_def handleNext_def split: option.splits)

lemma consistent_handlePrevious: "consistent s \<Longrightarrow> consistent (handlePrevious s)"
  by (simp add: consistent_def handlePrevious_def split: option.splits)

lemma reachable_consistent: "reachable s \<Longrightarrow> consistent s"
proof (induction rule: reachable.induct)
  case reach_mount
  show ?case by (rule consistent_initial)
next
  case (reach_load s select_questions lang now)
  show ?case by (rule consistent_loadQuestions)
next
  case (reach_select s optionIndex)
  then show ?case by (simp add: consistent_handleAnswerSelect)
next
  case (reach_next s)
  then show ?case by (simp add: consistent_handleNext)
next
  case (reach_previous s)
  then show ?case by (simp add: consistent_handlePrevious)
qed

lemma positions_Cons:
  "{i. i < length (x # xs) \<and> P i ((x # xs) ! i)} =
     (if P 0 x then {0} else {}) \<union> Suc ` {i. i < length xs \<and> P (Suc i) (xs ! i)}"
proof (intro set_eqI iffI)
  fix i
  assume "i \<in> {i. i < length (x # xs) \<and> P i ((x # xs) ! i)}"
  then show "i \<in> (if P 0 x then {0} else {}) \<union> Suc ` {i. i < length xs \<and> P (Suc i) (xs ! i)}"
    by (cases i) auto
next
  fix i
  assume "i \<in> (if P 0 x then {0} else {}) \<union> Suc ` {i. i < length xs \<and> P (Suc i) (xs ! i)}"
  then show "i \<in> {i. i < length (x # xs) \<and> P i ((x # xs) ! i)}"
    by (auto split: if_splits)
qed

lemma card_positions_Cons:
  "card {i. i < length (x # xs) \<and> P i ((x # xs) ! i)} =
     (if P 0 x then 1 else 0) + card {i. i < length xs \<and> P (Suc i) (xs ! i)}"
proof -
  have fin: "finite {i. i < length xs \<and> P (Suc i) (xs ! i)}"
    by simp
  have "card ((if P 0 x then {0} else {}) \<union> Suc ` {i. i < length xs \<and> P (Suc i) (xs ! i)}) =
        card (if P 0 x then {0::nat} else {}) + card (Suc ` {i. i < length xs \<and> P (Suc i) (xs ! i)})"
    using fin by (intro card_Un_disjoint) auto
  also have "\<dots> = (if P 0 x then 1 else 0) + card {i. i < length xs \<and> P (Suc i) (xs ! i)}"
    by (simp add: card_image)
  finally show ?thesis
    by (simp only: positions_Cons)
qed

lemma card_positions_le: "card {i. i < length xs \<and> P i (xs ! i)} \<le> length xs"
proof -
  have "card {i. i < length xs \<and> P i (xs ! i)} \<le> card {..<length xs}"
    by (intro card_mono) auto
  then show ?thesis by simp
qed

lemma reduce_score_positions:
  "index + length as \<le> length qs \<Longrightarrow>
   reduce_score qs as index total' =
     Inr (total' +
          int (card {i. i < length as \<and> as ! i = Number (correct_answer (qs ! (index + i)))}))"
proof (induction as arbitrary: index total')
  case Nil
  then show ?case by simp
next
  case (Cons a as)
  have step: "card {i. i < length (a # as) \<and>
                    (a # as) ! i = Number (correct_answer (qs ! (index + i)))} =
        (if a = Number (correct_answer (qs ! index)) then 1 else 0) +
        card {i. i < length as \<and> as ! i = Number (correct_answer (qs ! (Suc index + i)))}"
    using card_positions_Cons
      [of a as "\<lambda>i b. b = Number (correct_answer (qs ! (index + i)))"]
    by simp
  from Cons.prems have "Suc index + length as \<le> length qs" and "index < length qs"
    by simp_all
  with Cons.IH [of "Suc index"] step show ?case
    by auto
qed

lemma handleSubmit_consistent:
  assumes "consistent s" and "testSession s = Some session"
  shows "handleSubmit insert_test_session now s =
           Inr (Some \<lparr>completedSession =
                        session\<lparr>s_answers := answers s,
                                score := int (card {i. i < length (answers s) \<and>
                                   answers s ! i = Number (correct_answer (questions s ! i))}),
                                completed_at := Some (toISOString now)\<rparr>,
                      param_score = int (card {i. i < length (answers s) \<and>
                                   answers s ! i = Number (correct_answer (questions s ! i))}),
                      param_total = int (length (questions s)),
                      param_sessionId = s_id session\<rparr>)"
proof -
  from assms have "0 + length (answers s) \<le> length (questions s)"
    by (simp add: consistent_def)
  from reduce_score_positions [OF this, of 0]
  have "reduce_score (questions s) (answers s) 0 0 =
          Inr (int (card {i. i < length (answers s) \<and>
                  answers s ! i = Number (correct_answer (questions s ! i))}))"
    by simp
  with assms(2) show ?thesis
    by (cases "insert_test_session
                 (session\<lparr>s_answers := answers s,
                          score := int (card {i. i < length (answers s) \<and>
                             answers s ! i = Number (correct_answer (questions s ! i))}),
                          completed_at := Some (toISOString now)\<rparr>)")
      (simp_all add: handleSubmit_def try_catch_def Let_def)
qed

lemma handleAnswerSelect_fields:
  "questions (handleAnswerSelect optionIndex s) = questions s"
  "currentQuestionIndex (handleAnswerSelect optionIndex s) = currentQuestionIndex s"
  "testSession (handleAnswerSelect optionIndex s) = testSession s"
  "answers (handleAnswerSelect optionIndex s) =
     array_set (map (\<lambda>a. if a = Hole then Undefined else a) (answers s))
       (currentQuestionIndex s) (Number optionIndex)"
  by (simp_all add: handleAnswerSelect_def)

lemma handleNext_fields:
  "questions (handleNext s) = questions s"
  "answers (handleNext s) = answers s"
  "testSession (handleNext s) = testSession s"
  "currentQuestionIndex (handleNext s) =
     (if int (currentQuestionIndex s) < int (length (questions s)) - 1
      then currentQuestionIndex s + 1 else currentQuestionIndex s)"
  by (simp_all add: handleNext_def)

lemma scenario_loaded:
  "questions (loadQuestions (\<lambda>lang limit. Inr (Some [], None)) ''en'' now initial_state) =
     sampleQuestions ''en'' now"
  "answers (loadQuestions (\<lambda>lang limit. Inr (Some [], None)) ''en'' now initial_state) =
     [Null, Null, Null]"
  "currentQuestionIndex
     (loadQuestions (\<lambda>lang limit. Inr (Some [], None)) ''en'' now initial_state) = 0"
  "testSession (loadQuestions (\<lambda>lang limit. Inr (Some [], None)) ''en'' now initial_state) \<noteq>
     None"
proof -
  have loaded: "loadQuestions (\<lambda>lang limit. Inr (Some [], None)) ''en'' now initial_state =
      (loadSampleQuestions ''en'' now initial_state)\<lparr>loading := False\<rparr>"
    by (rule loadQuestions_uses_samples) simp
  show "questions (loadQuestions (\<lambda>lang limit. Inr (Some [], None)) ''en'' now initial_state) =
     sampleQuestions ''en'' now"
    and "answers (loadQuestions (\<lambda>lang limit. Inr (Some [], None)) ''en'' now initial_state) =
     [Null, Null, Null]"
    by (simp_all add: loaded loadSampleQuestions_fields)
  show "currentQuestionIndex
     (loadQuestions (\<lambda>lang limit. Inr (Some [], None)) ''en'' now initial_state) = 0"
    using loaded by (simp add: loadSampleQuestions_fields(3) initial_state_def)
  show "testSession (loadQuestions (\<lambda>lang limit. Inr (Some [], None)) ''en'' now initial_state) \<noteq>
     None"
    by (simp add: loaded loadSampleQuestions_def)
qed

lemmas scenario_simps = scenario_loaded handleAnswerSelect_fields handleNext_fields
  sampleQuestions_length array_set_def

lemma scenario_reachable: "reachable (scenario_state now)"
  unfolding scenario_state_def
  by (intro reachable.intros) (simp_all add: scenario_simps)

lemma scenario_fields:
  "questions (scenario_state now) = sampleQuestions ''en'' now"
  "answers (scenario_state now) = [Number 1, Number 0, Number 2]"
  "testSession (scenario_state now) \<noteq> None"
  by (simp_all add: scenario_state_def scenario_simps)

lemma reduce_score_scenario:
  assumes "map correct_answer qs = [1, 1, 2]"
  shows "reduce_score qs [Number 1, Number 0, Number 2] 0 0 = Inr 2"
proof -
  from assms obtain q0 q1 q2 where "qs = [q0, q1, q2]"
    and "correct_answer q0 = 1" "correct_answer q1 = 1" "correct_answer q2 = 2"
    by auto
  then show ?thesis by simp
qed

lemma handleSubmit_scenario:
  assumes "map correct_answer (questions s) = [1, 1, 2]"
    and "answers s = [Number 1, Number 0, Number 2]"
    and "testSession s = Some session"
  shows "\<exists>r. handleSubmit insert_test_session now s = Inr (Some r) \<and>
              param_score r = 2 \<and> param_total r = 3 \<and> score (completedSession r) = 2"
proof -
  from assms(1) have "length (map correct_answer (questions s)) = 3"
    by simp
  then have "length (questions s) = 3"
    by simp
  with assms reduce_score_scenario [OF assms(1)] show ?thesis
    by (cases "insert_test_session
                 (session\<lparr>s_answers := answers s, score := 2,
                          completed_at := Some (toISOString now)\<rparr>)")
      (simp_all add: handleSubmit_def try_catch_def Let_def)
qed

text \<open>
  C1: in every state the test screen can reach, \<open>handleSubmit\<close> returns: with no session
  it returns early, and with a session it produces a completed session, whatever the
  store does with the insert. The score of that session is the number of positions \<open>i\<close>
  at which \<open>answers[i]\<close> is the correct answer of \<open>questions[i]\<close>; it lies between 0 and
  \<open>total_questions\<close>; the session's answers are the answers of the screen, as many as
  there are questions, which is \<open>total_questions\<close> and the number of question identifiers
  of the session; the completion time is set; and the score and total handed to the
  results view are those of the session.
\<close>

theorem handleSubmit_score:
  assumes "reachable s"
  shows "(testSession s = None \<longrightarrow> handleSubmit insert_test_session now s = Inr None) \<and>
         (\<forall>session. testSession s = Some session \<longrightarrow>
            (\<exists>r. handleSubmit insert_test_session now s = Inr (Some r) \<and>
               score (completedSession r) =
                 int (card {i. i < length (answers s) \<and>
                            answers s ! i = Number (correct_answer (questions s ! i))}) \<and>
               0 \<le> score (completedSession r) \<and>
               score (completedSession r) \<le> total_questions (completedSession r) \<and>
               s_answers (completedSession r) = answers s \<and>
               length (answers s) = length (questions s) \<and>
               total_questions (completedSession r) = int (length (questions s)) \<and>
               length (s_questions (completedSession r)) = length (questions s) \<and>
               completed_at (completedSession r) = Some (toISOString now) \<and>
               param_score r = score (completedSession r) \<and>
               param_total r = total_questions (completedSession r)))"
proof (intro conjI allI impI)
  assume "testSession s = None"
  then show "handleSubmit insert_test_session now s = Inr None"
    by (simp add: handleSubmit_def)
next
  fix session
  assume session: "testSession s = Some session"
  from assms have inv: "consistent s"
    by (rule reachable_consistent)
  let ?count = "card {i. i < length (answers s) \<and>
                         answers s ! i = Number (correct_answer (questions s ! i))}"
  have "?count \<le> length (answers s)"
    using card_positions_le [of "answers s" "\<lambda>i a. a = Number (correct_answer (questions s ! i))"]
    by simp
  with inv session have bound: "int ?count \<le> total_questions session"
    and lens: "length (answers s) = length (questions s)"
      "total_questions session = int (length (questions s))"
      "length (s_questions session) = length (questions s)"
    by (simp_all add: consistent_def)
  show "\<exists>r. handleSubmit insert_test_session now s = Inr (Some r) \<and>
               score (completedSession r) = int ?count \<and>
               0 \<le> score (completedSession r) \<and>
               score (completedSession r) \<le> total_questions (completedSession r) \<and>
               s_answers (completedSession r) = answers s \<and>
               length (answers s) = length (questions s) \<and>
               total_questions (completedSession r) = int (length (questions s)) \<and>
               length (s_questions (completedSession r)) = length (questions s) \<and>
               completed_at (completedSession r) = Some (toISOString now) \<and>
               param_score r = score (completedSession r) \<and>
               param_total r = total_questions (completedSession r)"
    using bound lens
    by (simp add: handleSubmit_consistent [OF inv session])
qed

theorem handleSubmit_score_witness:
  "\<exists>r. handleSubmit (\<lambda>session. Inl NonError)
          \<lparr>Date_now = 1753600000000, toISOString = ''2025-07-27T07:06:40.000Z''\<rparr>
          (scenario_state \<lparr>Date_now = 1753600000000, toISOString = ''2025-07-27T07:06:40.000Z''\<rparr>) =
        Inr (Some r) \<and>
      score (completedSession r) = 2 \<and>
      total_questions (completedSession r) = 3 \<and>
      s_answers (completedSession r) = [Number 1, Number 0, Number 2]"
proof -
  let ?now = "\<lparr>Date_now = 1753600000000, toISOString = ''2025-07-27T07:06:40.000Z''\<rparr>"
  let ?insert = "\<lambda>session :: TestSession. Inl NonError :: thrown + unit"
  from scenario_fields(3) [of ?now] obtain session
    where session: "testSession (scenario_state ?now) = Some session"
    by auto
  with handleSubmit_score [OF scenario_reachable, of ?now ?insert ?now]
  obtain r where r: "handleSubmit ?insert ?now (scenario_state ?now) = Inr (Some r)"
    and total: "total_questions (completedSession r) = int (length (questions (scenario_state ?now)))"
    and given: "s_answers (completedSession r) = answers (scenario_state ?now)"
    by blast
  from handleSubmit_scenario [of "scenario_state ?now" session ?insert ?now] session
  obtain r' where "handleSubmit ?insert ?now (scenario_state ?now) = Inr (Some r')"
    and "score (completedSession r') = 2"
    by (auto simp: scenario_fields sampleQuestions_correct_answer)
  with r have "score (completedSession r) = 2"
    by simp
  with r total given show ?thesis
    by (simp add: scenario_fields sampleQuestions_length)
qed


section \<open>Properties of the results view\<close>














end
